theory Spec2Isabelle
  imports
    Complex_Main
    "HOL-Library.Word"
    "HOL-Library.Log_Nat"
    "HOL-Library.State_Monad"
begin

unbundle bit_operations_syntax

section \<open>Values of the program\<close>

text \<open>
  A JavaScript string is a sequence of UTF-16 code units. An integer-valued JavaScript
  number is an \<^typ>\<open>int\<close>; the result of a bitwise operator or of \<^verbatim>\<open>Math.imul\<close> is a
  32-bit word (its signed and unsigned readings differ only where it is turned back into
  a number). Numbers that are not integers are idealised as \<^typ>\<open>real\<close>.
\<close>

type_synonym jsstring = "16 word list"
type_synonym int32 = "32 word"

definition js :: "string \<Rightarrow> jsstring" where
  "js s = map (\<lambda>c. of_nat (of_char c)) s"

subsection \<open>String.prototype.toLowerCase\<close>

definition ascii_lower :: "16 word \<Rightarrow> 16 word" where
  "ascii_lower c = (if 0x41 \<le> c \<and> c \<le> 0x5A then c + 0x20 else c)"

text \<open>
  \<^verbatim>\<open>toLowerCase\<close> is a built-in of the language. On a string of ASCII code units it
  maps \<^verbatim>\<open>A-Z\<close> to \<^verbatim>\<open>a-z\<close>; on any other string the result comes from the Unicode
  case-mapping tables of the platform, which are taken as the parameter \<open>U\<close>.
\<close>

definition toLowerCase :: "(jsstring \<Rightarrow> jsstring) \<Rightarrow> jsstring \<Rightarrow> jsstring" where
  "toLowerCase U s = (if list_all (\<lambda>c. c < 0x80) s then map ascii_lower s else U s)"

section \<open>xmur3: the string hasher\<close>

text \<open>
  \<^verbatim>\<open>
  function xmur3(str) {
    let h = 1779033703 ^ str.length;
    for (let i = 0; i < str.length; i++) {
      h = Math.imul(h ^ str.charCodeAt(i), 3432918353);
      h = (h << 13) | (h >>> 19);
    }
    return function () {
      h = Math.imul(h ^ (h >>> 16), 2246822507);
      h = Math.imul(h ^ (h >>> 13), 3266489909);
      h ^= h >>> 16;
      return h >>> 0;
    };
  }
  \<close>
  The closure that \<^verbatim>\<open>xmur3\<close> returns is represented by the variable \<open>h\<close> it captures.
\<close>

function xmur3_loop :: "jsstring \<Rightarrow> nat \<Rightarrow> int32 \<Rightarrow> int32" where
  "xmur3_loop str i h =
     (if i < length str then
        (let h1 = (h XOR ucast (str ! i)) * 3432918353;
             h2 = push_bit 13 h1 OR drop_bit 19 h1
         in xmur3_loop str (i + 1) h2)
      else h)"
  by pat_completeness auto
termination
  by (relation "measure (\<lambda>(str, i, h). length str - i)") auto

declare xmur3_loop.simps [simp del]

definition xmur3 :: "jsstring \<Rightarrow> int32" where
  "xmur3 str = xmur3_loop str 0 (1779033703 XOR of_nat (length str))"

text \<open>One call of the closure: the number it returns and the new value of \<open>h\<close>.\<close>

definition xmur3_call :: "int32 \<Rightarrow> int \<times> int32" where
  "xmur3_call h =
     (let h1 = (h XOR drop_bit 16 h) * 2246822507;
          h2 = (h1 XOR drop_bit 13 h1) * 3266489909;
          h3 = h2 XOR drop_bit 16 h2
      in (uint h3, h3))"

text \<open>
  \<^verbatim>\<open>
  function computeSeed(word) {
    const seedFn = xmur3(word.toLowerCase());
    const s1 = seedFn();
    const s2 = seedFn();
    const s3 = seedFn();
    return (s1 ^ s2 ^ s3) >>> 0;
  }
  \<close>
\<close>

definition computeSeed :: "(jsstring \<Rightarrow> jsstring) \<Rightarrow> jsstring \<Rightarrow> int" where
  "computeSeed U word =
     (let seedFn = xmur3 (toLowerCase U word);
          (s1, seedFn1) = xmur3_call seedFn;
          (s2, seedFn2) = xmur3_call seedFn1;
          (s3, seedFn3) = xmur3_call seedFn2
      in uint ((word_of_int s1 :: int32) XOR word_of_int s2 XOR word_of_int s3))"

subsection \<open>The hash stream as the specification words it\<close>

text \<open>
  The state starts as \<open>1779033703 XOR length\<close>; each code unit is mixed in by a 32-bit
  multiplication with 3432918353 followed by a rotation to the left by 13 bits; every
  output is one more avalanche round on the state.
\<close>

definition spec_mix :: "int32 \<Rightarrow> 16 word \<Rightarrow> int32" where
  "spec_mix h c = word_rotl 13 ((h XOR ucast c) * 3432918353)"

definition spec_hash_init :: "jsstring \<Rightarrow> int32" where
  "spec_hash_init s = foldl spec_mix (1779033703 XOR of_nat (length s)) s"

definition spec_avalanche :: "int32 \<Rightarrow> int32" where
  "spec_avalanche h =
     (let a = (h XOR drop_bit 16 h) * 2246822507;
          b = (a XOR drop_bit 13 a) * 3266489909
      in b XOR drop_bit 16 b)"

definition spec_stream :: "jsstring \<Rightarrow> nat \<Rightarrow> int32" where
  "spec_stream s n = (spec_avalanche ^^ Suc n) (spec_hash_init s)"

definition spec_seed :: "jsstring \<Rightarrow> int" where
  "spec_seed s = uint (spec_stream s 0 XOR spec_stream s 1 XOR spec_stream s 2)"

section \<open>mulberry32: the generator\<close>

text \<open>
  \<^verbatim>\<open>
  function mulberry32(a) {
    return function () {
      let t = (a += 0x6d2b79f5);
      t = Math.imul(t ^ (t >>> 15), t | 1);
      t ^= t + Math.imul(t ^ (t >>> 7), t | 61);
      return ((t ^ (t >>> 14)) >>> 0) / 4294967296;
    };
  }
  \<close>
  The captured variable \<open>a\<close> is a number, not a 32-bit integer: \<^verbatim>\<open>a += 0x6d2b79f5\<close> is
  an addition of doubles. It is exact below \<open>2^53\<close> and rounds to the nearest double (ties
  to even) above. \<open>to_double\<close> is that rounding on integers.
\<close>

definition to_double :: "int \<Rightarrow> int" where
  "to_double x =
     (let m = \<bar>x\<bar> in
      if m \<le> 2 ^ 53 then x
      else
        (let e = floorlog 2 (nat m) - 53;
             q = m div 2 ^ e;
             r = m mod 2 ^ e;
             half = 2 ^ (e - 1);
             q' = (if r < half then q else if half < r then q + 1
                   else if even q then q else q + 1)
         in sgn x * (q' * 2 ^ e)))"

text \<open>One call of the closure: the value it returns and the new value of \<open>a\<close>.\<close>

definition mulberry32_call :: "int \<Rightarrow> real \<times> int" where
  "mulberry32_call a =
     (let a' = to_double (a + 0x6d2b79f5);
          t0 = (word_of_int a' :: int32);
          t1 = (t0 XOR drop_bit 15 t0) * (t0 OR 1);
          t2 = t1 XOR (t1 + (t1 XOR drop_bit 7 t1) * (t1 OR 61));
          u = t2 XOR drop_bit 14 t2
      in (real_of_int (uint u) / 4294967296, a'))"

text \<open>The first \<open>n\<close> values drawn from a generator whose variable is \<open>a\<close>.\<close>

fun draws :: "nat \<Rightarrow> int \<Rightarrow> real list" where
  "draws 0 a = []"
| "draws (Suc n) a = fst (mulberry32_call a) # draws n (snd (mulberry32_call a))"

text \<open>
  Generator instances live in a store: \<^verbatim>\<open>mulberry32(seed)\<close> allocates a new closure with
  its own variable \<open>a\<close>, and calling a closure updates only that variable. Calling
  something that is not a closure of the store fails.
\<close>

type_synonym rng_store = "int list"

definition mulberry32 :: "int \<Rightarrow> rng_store \<Rightarrow> nat \<times> rng_store" where
  "mulberry32 seed st = (length st, st @ [seed])"

definition call_rng :: "nat \<Rightarrow> rng_store \<Rightarrow> (real \<times> rng_store) option" where
  "call_rng g st =
     (if g < length st then
        (let (v, a') = mulberry32_call (st ! g) in Some (v, st[g := a']))
      else None)"

fun run_calls :: "nat list \<Rightarrow> rng_store \<Rightarrow> (nat \<times> real) list option" where
  "run_calls [] st = Some []"
| "run_calls (g # gs) st =
     (case call_rng g st of
        None \<Rightarrow> None
      | Some (v, st') \<Rightarrow>
          (case run_calls gs st' of None \<Rightarrow> None | Some outs \<Rightarrow> Some ((g, v) # outs)))"

definition outputs_of :: "nat \<Rightarrow> (nat \<times> real) list \<Rightarrow> real list" where
  "outputs_of g outs = map snd (filter (\<lambda>p. fst p = g) outs)"

section \<open>sanitizeWord\<close>

text \<open>
  \<^verbatim>\<open>
  function sanitizeWord(raw) {
    const w = (raw || "").trim().split(/\s+/)[0] || "";
    return w.slice(0, 32);
  }
  \<close>
  \<^verbatim>\<open>trim\<close> and the class \<^verbatim>\<open>\s\<close> use the same set of code points, the WhiteSpace and
  LineTerminator productions of the language; all of them are single code units.
\<close>

definition isWhiteSpace :: "16 word \<Rightarrow> bool" where
  "isWhiteSpace c \<longleftrightarrow>
     c \<in> set [0x09, 0x0A, 0x0B, 0x0C, 0x0D, 0x20, 0xA0, 0x1680,
              0x2028, 0x2029, 0x202F, 0x205F, 0x3000, 0xFEFF]
     \<or> (0x2000 \<le> c \<and> c \<le> 0x200A)"

definition nonspace :: "16 word \<Rightarrow> bool" where
  "nonspace c \<longleftrightarrow> \<not> isWhiteSpace c"

definition trim :: "jsstring \<Rightarrow> jsstring" where
  "trim s = rev (dropWhile isWhiteSpace (rev (dropWhile isWhiteSpace s)))"

text \<open>
  \<^verbatim>\<open>s.split(/\s+/)\<close>: the pieces of \<open>s\<close> between maximal runs of white space. A run at
  the start or at the end of \<open>s\<close> gives an empty first or last piece, and the empty string
  splits into one empty piece.
\<close>

function split_ws :: "jsstring \<Rightarrow> jsstring list" where
  "split_ws s =
     (let tok = takeWhile nonspace s;
          rest = dropWhile nonspace s
      in if rest = [] then [tok] else tok # split_ws (dropWhile isWhiteSpace rest))"
  by pat_completeness auto
termination
proof (relation "measure length")
  show "wf (measure length)" by simp
next
  fix s tok rest :: jsstring
  assume r: "rest = dropWhile nonspace s" and ne: "rest \<noteq> []"
  from ne r have "\<not> nonspace (hd rest)"
    using hd_dropWhile [of nonspace s] by auto
  then have "isWhiteSpace (hd rest)" by (simp add: nonspace_def)
  with ne have "length (dropWhile isWhiteSpace rest) < length rest"
    by (cases rest) (simp_all add: le_imp_less_Suc length_dropWhile_le)
  also have "length rest \<le> length s"
    unfolding r by (rule length_dropWhile_le)
  finally show "(dropWhile isWhiteSpace rest, s) \<in> measure length" by simp
qed

declare split_ws.simps [simp del]

text \<open>\<^verbatim>\<open>a || b\<close> on strings, where the empty string is falsy, and on an array element
  that may be \<^verbatim>\<open>undefined\<close>.\<close>

definition or_str :: "jsstring \<Rightarrow> jsstring \<Rightarrow> jsstring" where
  "or_str a b = (if a = [] then b else a)"

definition index0 :: "'a list \<Rightarrow> 'a option" where
  "index0 xs = (case xs of [] \<Rightarrow> None | x # _ \<Rightarrow> Some x)"

definition or_undef :: "jsstring option \<Rightarrow> jsstring \<Rightarrow> jsstring" where
  "or_undef a b = (case a of None \<Rightarrow> b | Some s \<Rightarrow> or_str s b)"

definition sanitizeWord :: "jsstring \<Rightarrow> jsstring" where
  "sanitizeWord raw =
     (let w = or_undef (index0 (split_ws (trim (or_str raw [])))) []
      in take 32 w)"

subsection \<open>Code points, and the Word of the specification\<close>

definition is_high :: "16 word \<Rightarrow> bool" where
  "is_high c \<longleftrightarrow> 0xD800 \<le> c \<and> c \<le> 0xDBFF"

definition is_low :: "16 word \<Rightarrow> bool" where
  "is_low c \<longleftrightarrow> 0xDC00 \<le> c \<and> c \<le> 0xDFFF"

fun codepoints :: "jsstring \<Rightarrow> nat" where
  "codepoints [] = 0"
| "codepoints [c] = 1"
| "codepoints (c # d # cs) =
     (if is_high c \<and> is_low d then Suc (codepoints cs) else Suc (codepoints (d # cs)))"

fun take_codepoints :: "nat \<Rightarrow> jsstring \<Rightarrow> jsstring" where
  "take_codepoints 0 s = []"
| "take_codepoints (Suc n) [] = []"
| "take_codepoints (Suc n) [c] = [c]"
| "take_codepoints (Suc n) (c # d # cs) =
     (if is_high c \<and> is_low d then c # d # take_codepoints n cs
      else c # take_codepoints n (d # cs))"

definition first_token :: "jsstring \<Rightarrow> jsstring" where
  "first_token s = takeWhile nonspace s"

text \<open>The Word as the specification words it: trimmed, cut to the first token, capped at
  32 code points.\<close>

definition spec_word :: "jsstring \<Rightarrow> jsstring" where
  "spec_word raw = take_codepoints 32 (first_token (trim raw))"

text \<open>\<open>n\<close> copies of U+1F600, each a surrogate pair.\<close>

definition astral :: "nat \<Rightarrow> jsstring" where
  "astral n = concat (replicate n [0xD83D, 0xDE00])"

section \<open>The canvas and the state of a render\<close>

text \<open>
  \<^verbatim>\<open>function clamp(n, min, max) { return Math.max(min, Math.min(max, n)); }\<close>
\<close>

definition clamp :: "'a::linorder \<Rightarrow> 'a \<Rightarrow> 'a \<Rightarrow> 'a" where
  "clamp n lo hi = max lo (min hi n)"

text \<open>\<^verbatim>\<open>Math.round\<close>, the remainder \<^verbatim>\<open>%\<close> (its sign is the dividend's) and \<^verbatim>\<open>a || b\<close> on
  numbers (zero is falsy).\<close>

definition js_round :: "real \<Rightarrow> int" where
  "js_round x = \<lfloor>x + 1 / 2\<rfloor>"

definition js_rem :: "real \<Rightarrow> real \<Rightarrow> real" where
  "js_rem x y = x - y * real_of_int (if 0 \<le> x / y then \<lfloor>x / y\<rfloor> else \<lceil>x / y\<rceil>)"

definition or_num :: "int \<Rightarrow> int \<Rightarrow> int" where
  "or_num a b = (if a = 0 then b else a)"

text \<open>
  A CSS colour string is kept as the numbers it is built from.
  \<^verbatim>\<open>
  function hsl(h, s, l, a = 1) {
    return `hsla(${Math.round(h)} ${Math.round(s)}% ${Math.round(l)}% / ${a})`;
  }
  \<close>
\<close>

datatype color = Hsla int int int real | Rgba int int int real

definition hsl :: "real \<Rightarrow> real \<Rightarrow> real \<Rightarrow> real \<Rightarrow> color" where
  "hsl h s l a = Hsla (js_round h) (js_round s) (js_round l) a"

text \<open>
  The calls the program makes on the 2D context (and on the gradient it creates), in the
  order it makes them. A style that comes out of \<^verbatim>\<open>pick\<close> may be \<^verbatim>\<open>undefined\<close>, which is
  \<open>None\<close>. \<open>SetFont n\<close> is the assignment of \<^verbatim>\<open>`${n}px ui-sans-serif, system-ui`\<close>.
\<close>

datatype cmd =
    ClearRect real real real real
  | CreateRadialGradient real real real real real real
  | AddColorStop real color
  | SetFillStyleGradient
  | SetFillStyle "color option"
  | SetStrokeStyle "color option"
  | SetLineWidth real
  | SetLineCap string
  | SetLineJoin string
  | SetShadowColor "color option"
  | SetShadowBlur real
  | SetGlobalAlpha real
  | SetFont int
  | SetTextAlign string
  | FillRect real real real real
  | Save
  | Restore
  | Translate real real
  | Rotate real
  | BeginPath
  | ClosePath
  | MoveTo real real
  | LineTo real real
  | BezierCurveTo real real real real real real
  | Arc real real real real real bool
  | Fill
  | Stroke
  | FillText jsstring real real

datatype motif = Petal | Band | Rays | Dots | Triangles

text \<open>
  The structural choices of a render, recorded where the program binds them:
  \<^verbatim>\<open>segments\<close>, \<^verbatim>\<open>layers\<close>, the \<^verbatim>\<open>kind\<close> of layer \<open>li\<close>, and \<^verbatim>\<open>centerPetals\<close>. The record
  is instrumentation: the program itself returns nothing.
\<close>

datatype selection =
    Segments int
  | Layers int
  | Kind int "motif option"
  | CenterPetals int

text \<open>
  The state a render runs in: the size of the canvas, the variable \<open>a\<close> of the generator
  closure \<^verbatim>\<open>rng\<close>, the calls issued so far, the choices recorded so far, and a flag that
  is raised when a division has a zero divisor (the program goes on with an infinity or
  a NaN, it does not stop).
\<close>

record world =
  canvas_width :: nat
  canvas_height :: nat
  rng_a :: int
  issued :: "cmd list"
  selected :: "selection list"
  divz :: bool

definition canvas_size :: "world \<Rightarrow> nat \<times> nat" where
  "canvas_size s = (canvas_width s, canvas_height s)"

text \<open>
  The primitive steps: a call on the context; the record of a choice; the creation of the
  generator, \<^verbatim>\<open>const rng = mulberry32(seed)\<close>, a fresh closure whose variable starts at
  the seed; a call \<^verbatim>\<open>rng()\<close>; a division by a computed divisor.
\<close>

definition ctx :: "cmd \<Rightarrow> (world, unit) state" where
  "ctx c = State (\<lambda>s. ((), s\<lparr>issued := issued s @ [c]\<rparr>))"

definition chose :: "selection \<Rightarrow> (world, unit) state" where
  "chose x = State (\<lambda>s. ((), s\<lparr>selected := selected s @ [x]\<rparr>))"

definition new_rng :: "int \<Rightarrow> (world, unit) state" where
  "new_rng seed = State (\<lambda>s. ((), s\<lparr>rng_a := seed\<rparr>))"

definition rng :: "(world, real) state" where
  "rng = State (\<lambda>s. (fst (mulberry32_call (rng_a s)), s\<lparr>rng_a := snd (mulberry32_call (rng_a s))\<rparr>))"

definition divide :: "real \<Rightarrow> real \<Rightarrow> (world, real) state" where
  "divide x y = State (\<lambda>s. (x / y, s\<lparr>divz := (divz s \<or> y = 0)\<rparr>))"

text \<open>\<^verbatim>\<open>arr[i]\<close> is \<^verbatim>\<open>undefined\<close> outside the array.
  \<^verbatim>\<open>function pick(rng, arr) { return arr[Math.floor(rng() * arr.length)]; }\<close>\<close>

definition element :: "'a list \<Rightarrow> int \<Rightarrow> 'a option" where
  "element arr i = (if 0 \<le> i \<and> nat i < length arr then Some (arr ! nat i) else None)"

definition pick :: "'a list \<Rightarrow> (world, 'a option) state" where
  "pick arr = do {
     d \<leftarrow> rng;
     State_Monad.return (element arr \<lfloor>d * real (length arr)\<rfloor>)
   }"

text \<open>\<^verbatim>\<open>for (let i = 0; i < n; i++) body(i)\<close>, for an integer \<open>n\<close>.\<close>

primrec iterate :: "nat \<Rightarrow> int \<Rightarrow> (int \<Rightarrow> (world, unit) state) \<Rightarrow> (world, unit) state" where
  "iterate 0 i body = State_Monad.return ()"
| "iterate (Suc k) i body = do { body i; iterate k (i + 1) body }"

definition for_loop :: "int \<Rightarrow> (int \<Rightarrow> (world, unit) state) \<Rightarrow> (world, unit) state" where
  "for_loop n body = iterate (nat n) 0 body"

section \<open>The palette and the drawing helpers\<close>

text \<open>
  \<^verbatim>\<open>
  function makePalette(rng) {
    const baseHue = Math.floor(rng() * 360);
    const hue2 = (baseHue + 35 + rng() * 40) % 360;
    const hue3 = (baseHue + 180 + rng() * 50) % 360;
    const hue4 = (baseHue + 250 + rng() * 50) % 360;
    return {
      baseHue,
      ink: hsl(baseHue, 85, 70, 0.85),
      ink2: hsl(hue2, 88, 62, 0.85),
      ink3: hsl(hue3, 85, 62, 0.82),
      ink4: hsl(hue4, 88, 68, 0.82),
      gold: hsl((baseHue + 55) % 360, 90, 62, 0.9),
      white: "rgba(255,255,255,0.9)",
    };
  }
  \<close>
\<close>

record palette =
  baseHue :: int
  ink :: color
  ink2 :: color
  ink3 :: color
  ink4 :: color
  gold :: color
  white :: color

definition palette_of :: "real \<Rightarrow> real \<Rightarrow> real \<Rightarrow> real \<Rightarrow> palette" where
  "palette_of d1 d2 d3 d4 =
     (let baseHue = \<lfloor>d1 * 360\<rfloor>;
          hue2 = js_rem (real_of_int baseHue + 35 + d2 * 40) 360;
          hue3 = js_rem (real_of_int baseHue + 180 + d3 * 50) 360;
          hue4 = js_rem (real_of_int baseHue + 250 + d4 * 50) 360
      in \<lparr>baseHue = baseHue,
          ink = hsl (real_of_int baseHue) 85 70 0.85,
          ink2 = hsl hue2 88 62 0.85,
          ink3 = hsl hue3 85 62 0.82,
          ink4 = hsl hue4 88 68 0.82,
          gold = hsl (js_rem (real_of_int baseHue + 55) 360) 90 62 0.9,
          white = Rgba 255 255 255 0.9\<rparr>)"

definition makePalette :: "(world, palette) state" where
  "makePalette = do {
     d1 \<leftarrow> rng;
     d2 \<leftarrow> rng;
     d3 \<leftarrow> rng;
     d4 \<leftarrow> rng;
     State_Monad.return (palette_of d1 d2 d3 d4)
   }"

text \<open>
  \<^verbatim>\<open>
  function drawBackground(ctx, w, h, rng, palette) {
    ctx.clearRect(0, 0, w, h);
    const g = ctx.createRadialGradient(w * 0.5, h * 0.48, w * 0.05, w * 0.5, h * 0.5, w * 0.55);
    g.addColorStop(0, hsl(palette.baseHue + 10, 70, 18, 0.92));
    g.addColorStop(0.55, hsl(palette.baseHue + 190, 65, 10, 0.9));
    g.addColorStop(1, "rgba(0,0,0,0.98)");
    ctx.fillStyle = g;
    ctx.fillRect(0, 0, w, h);
    ctx.save();
    ctx.globalAlpha = 0.10;
    for (let i = 0; i < 2400; i++) {
      const x = rng() * w;
      const y = rng() * h;
      const a = 0.04 + rng() * 0.14;
      ctx.fillStyle = `rgba(255,255,255,${a})`;
      ctx.fillRect(x, y, 1, 1);
    }
    ctx.restore();
  }
  \<close>
\<close>

definition grain :: "real \<Rightarrow> real \<Rightarrow> int \<Rightarrow> (world, unit) state" where
  "grain w h i = do {
     dx \<leftarrow> rng;
     let x = dx * w;
     dy \<leftarrow> rng;
     let y = dy * h;
     da \<leftarrow> rng;
     let a = 0.04 + da * 0.14;
     ctx (SetFillStyle (Some (Rgba 255 255 255 a)));
     ctx (FillRect x y 1 1)
   }"

definition drawBackground :: "real \<Rightarrow> real \<Rightarrow> palette \<Rightarrow> (world, unit) state" where
  "drawBackground w h palette = do {
     ctx (ClearRect 0 0 w h);
     ctx (CreateRadialGradient (w * 0.5) (h * 0.48) (w * 0.05) (w * 0.5) (h * 0.5) (w * 0.55));
     ctx (AddColorStop 0 (hsl (real_of_int (baseHue palette) + 10) 70 18 0.92));
     ctx (AddColorStop 0.55 (hsl (real_of_int (baseHue palette) + 190) 65 10 0.9));
     ctx (AddColorStop 1 (Rgba 0 0 0 0.98));
     ctx SetFillStyleGradient;
     ctx (FillRect 0 0 w h);
     ctx Save;
     ctx (SetGlobalAlpha 0.10);
     for_loop 2400 (grain w h);
     ctx Restore
   }"

text \<open>
  \<^verbatim>\<open>
  function strokeGlow(ctx, color, lineWidth, glowColor, glowBlur) {
    ctx.strokeStyle = color;
    ctx.lineWidth = lineWidth;
    ctx.lineCap = "round";
    ctx.lineJoin = "round";
    ctx.shadowColor = glowColor || color;
    ctx.shadowBlur = glowBlur ?? 10;
  }
  function fillGlow(ctx, color, glowColor, glowBlur) {
    ctx.fillStyle = color;
    ctx.shadowColor = glowColor || color;
    ctx.shadowBlur = glowBlur ?? 12;
  }
  \<close>
\<close>

definition or_color :: "color option \<Rightarrow> color option \<Rightarrow> color option" where
  "or_color a b = (case a of None \<Rightarrow> b | Some c \<Rightarrow> Some c)"

definition strokeGlow ::
  "color option \<Rightarrow> real \<Rightarrow> color option \<Rightarrow> real option \<Rightarrow> (world, unit) state" where
  "strokeGlow color lineWidth glowColor glowBlur = do {
     ctx (SetStrokeStyle color);
     ctx (SetLineWidth lineWidth);
     ctx (SetLineCap ''round'');
     ctx (SetLineJoin ''round'');
     ctx (SetShadowColor (or_color glowColor color));
     ctx (SetShadowBlur (case glowBlur of None \<Rightarrow> 10 | Some b \<Rightarrow> b))
   }"

definition fillGlow ::
  "color option \<Rightarrow> color option \<Rightarrow> real option \<Rightarrow> (world, unit) state" where
  "fillGlow color glowColor glowBlur = do {
     ctx (SetFillStyle color);
     ctx (SetShadowColor (or_color glowColor color));
     ctx (SetShadowBlur (case glowBlur of None \<Rightarrow> 12 | Some b \<Rightarrow> b))
   }"

text \<open>
  \<^verbatim>\<open>
  function drawPetal(ctx, r0, r1, width, rng) {
    const c = 0.25 + rng() * 0.45;
    ctx.beginPath();
    ctx.moveTo(-width * 0.15, r0);
    ctx.bezierCurveTo(-width, r0 + (r1 - r0) * c, -width, r1, 0, r1);
    ctx.bezierCurveTo(width, r1, width, r0 + (r1 - r0) * c, width * 0.15, r0);
    ctx.closePath();
  }
  function drawArcBand(ctx, r0, r1, a0, a1) {
    ctx.beginPath();
    ctx.arc(0, 0, r1, a0, a1);
    ctx.arc(0, 0, r0, a1, a0, true);
    ctx.closePath();
  }
  function drawDot(ctx, r, size) {
    ctx.beginPath();
    ctx.arc(0, -r, size, 0, Math.PI * 2);
    ctx.closePath();
  }
  \<close>
\<close>

definition drawPetal :: "real \<Rightarrow> real \<Rightarrow> real \<Rightarrow> (world, unit) state" where
  "drawPetal r0 r1 width = do {
     d \<leftarrow> rng;
     let c = 0.25 + d * 0.45;
     ctx BeginPath;
     ctx (MoveTo (- width * 0.15) r0);
     ctx (BezierCurveTo (- width) (r0 + (r1 - r0) * c) (- width) r1 0 r1);
     ctx (BezierCurveTo width r1 width (r0 + (r1 - r0) * c) (width * 0.15) r0);
     ctx ClosePath
   }"

definition drawArcBand :: "real \<Rightarrow> real \<Rightarrow> real \<Rightarrow> real \<Rightarrow> (world, unit) state" where
  "drawArcBand r0 r1 a0 a1 = do {
     ctx BeginPath;
     ctx (Arc 0 0 r1 a0 a1 False);
     ctx (Arc 0 0 r0 a1 a0 True);
     ctx ClosePath
   }"

definition drawDot :: "real \<Rightarrow> real \<Rightarrow> (world, unit) state" where
  "drawDot r size' = do {
     ctx BeginPath;
     ctx (Arc 0 (- r) size' 0 (pi * 2) False);
     ctx ClosePath
   }"

section \<open>drawMandala\<close>

text \<open>
  The function is one body in the source; its loop bodies are named here. The generator
  \<^verbatim>\<open>rng\<close> and the context \<^verbatim>\<open>ctx\<close> are the state, so they are not parameters. Divisions by
  a computed divisor go through \<open>divide\<close>; the literal divisors are 2.

  The rays of one segment (source lines 230 to 239):
  \<^verbatim>\<open>
  for (let ri = 0; ri < rayCount; ri++) {
    const a = (-step * 0.32) + (ri / (rayCount - 1 || 1)) * (step * 0.64);
    const rr0 = r0 * (0.96 + rng() * 0.08);
    const rr1 = r1 * (0.96 + rng() * 0.08);
    ctx.beginPath();
    ctx.moveTo(Math.sin(a) * rr0, -Math.cos(a) * rr0);
    ctx.lineTo(Math.sin(a) * rr1, -Math.cos(a) * rr1);
    ctx.globalAlpha = 0.6 + rng() * 0.35;
    ctx.stroke();
  }
  \<close>
\<close>

definition ray :: "real \<Rightarrow> real \<Rightarrow> real \<Rightarrow> int \<Rightarrow> int \<Rightarrow> (world, unit) state" where
  "ray step r0 r1 rayCount ri = do {
     q \<leftarrow> divide (real_of_int ri) (real_of_int (or_num (rayCount - 1) 1));
     let a = (- step * 0.32) + q * (step * 0.64);
     d0 \<leftarrow> rng;
     let rr0 = r0 * (0.96 + d0 * 0.08);
     d1 \<leftarrow> rng;
     let rr1 = r1 * (0.96 + d1 * 0.08);
     ctx BeginPath;
     ctx (MoveTo (sin a * rr0) (- cos a * rr0));
     ctx (LineTo (sin a * rr1) (- cos a * rr1));
     d2 \<leftarrow> rng;
     ctx (SetGlobalAlpha (0.6 + d2 * 0.35));
     ctx Stroke
   }"

text \<open>
  The dots of one segment (source lines 242 to 252):
  \<^verbatim>\<open>
  for (let di = 0; di < dotCount; di++) {
    const rr = r0 + (r1 - r0) * (di / (dotCount - 1 || 1));
    const size = minDim * (0.0022 + rng() * 0.0046);
    drawDot(ctx, rr, size);
    ctx.globalAlpha = 0.55 + rng() * 0.38;
    fillGlow(ctx, pick(rng, inks), pick(rng, inks), 16);
    ctx.fill();
    ctx.globalAlpha = 0.85;
    strokeGlow(ctx, "rgba(255,255,255,0.18)", lw * 0.8, "rgba(255,255,255,0.16)", 10);
    ctx.stroke();
  }
  \<close>
\<close>

definition dot :: "color list \<Rightarrow> real \<Rightarrow> real \<Rightarrow> real \<Rightarrow> real \<Rightarrow> int \<Rightarrow> int \<Rightarrow> (world, unit) state" where
  "dot inks minDim r0 r1 lw dotCount di = do {
     q \<leftarrow> divide (real_of_int di) (real_of_int (or_num (dotCount - 1) 1));
     let rr = r0 + (r1 - r0) * q;
     d0 \<leftarrow> rng;
     let size' = minDim * (0.0022 + d0 * 0.0046);
     drawDot rr size';
     d1 \<leftarrow> rng;
     ctx (SetGlobalAlpha (0.55 + d1 * 0.38));
     c0 \<leftarrow> pick inks;
     c1 \<leftarrow> pick inks;
     fillGlow c0 c1 (Some 16);
     ctx Fill;
     ctx (SetGlobalAlpha 0.85);
     strokeGlow (Some (Rgba 255 255 255 0.18)) (lw * 0.8) (Some (Rgba 255 255 255 0.16)) (Some 10);
     ctx Stroke
   }"

text \<open>
  One segment of a layer (source lines 203 to 271): the body of
  \<^verbatim>\<open>for (let si = 0; si < segments; si++)\<close>, from \<^verbatim>\<open>ctx.save()\<close> and
  \<^verbatim>\<open>ctx.rotate(si * step)\<close> through the branch on \<^verbatim>\<open>kind\<close> to \<^verbatim>\<open>ctx.restore()\<close>. A \<^verbatim>\<open>kind\<close>
  that is none of the five strings draws nothing.
\<close>

definition segment ::
  "palette \<Rightarrow> color list \<Rightarrow> real \<Rightarrow> real \<Rightarrow> real \<Rightarrow> int \<Rightarrow> real \<Rightarrow> real \<Rightarrow>
   color option \<Rightarrow> color option \<Rightarrow> motif option \<Rightarrow> real \<Rightarrow> int \<Rightarrow> (world, unit) state" where
  "segment palette inks R minDim step li r0 r1 stroke fill kind lw si = do {
     ctx Save;
     ctx (Rotate (real_of_int si * step));
     (if kind = Some Petal then do {
        d0 \<leftarrow> rng;
        let width = R * (0.05 + d0 * 0.12);
        drawPetal r0 r1 width;
        ctx (SetGlobalAlpha 0.85);
        d1 \<leftarrow> rng;
        fillGlow (Some (hsl (real_of_int (baseHue palette + li * 12 + si * 2)) 88 58
                    (0.14 + d1 * 0.20))) fill (Some 14);
        ctx Fill;
        ctx (SetGlobalAlpha 0.95);
        strokeGlow stroke lw stroke (Some 14);
        ctx Stroke
      } else if kind = Some Band then do {
        d0 \<leftarrow> rng;
        let span = step * (0.70 + d0 * 0.20);
        let a0 = - span / 2;
        let a1 = span / 2;
        drawArcBand r0 r1 a0 a1;
        ctx (SetGlobalAlpha 0.8);
        d1 \<leftarrow> rng;
        fillGlow (Some (hsl (real_of_int (baseHue palette + 160 + li * 7)) 85 55
                    (0.08 + d1 * 0.16))) fill (Some 12);
        ctx Fill;
        ctx (SetGlobalAlpha 0.95);
        strokeGlow stroke lw stroke (Some 12);
        ctx Stroke
      } else if kind = Some Rays then do {
        d0 \<leftarrow> rng;
        let rayCount = clamp \<lfloor>2 + d0 * 6\<rfloor> 2 7;
        strokeGlow stroke lw stroke (Some 12);
        for_loop rayCount (ray step r0 r1 rayCount)
      } else if kind = Some Dots then do {
        d0 \<leftarrow> rng;
        let dotCount = clamp \<lfloor>2 + d0 * 5\<rfloor> 2 6;
        for_loop dotCount (dot inks minDim r0 r1 lw dotCount)
      } else if kind = Some Triangles then do {
        d0 \<leftarrow> rng;
        let tw = R * (0.03 + d0 * 0.09);
        d1 \<leftarrow> rng;
        let tip = r1 * (0.96 + d1 * 0.08);
        d2 \<leftarrow> rng;
        let base = r0 * (0.96 + d2 * 0.08);
        ctx BeginPath;
        ctx (MoveTo 0 (- tip));
        ctx (LineTo (- tw) (- base));
        ctx (LineTo tw (- base));
        ctx ClosePath;
        ctx (SetGlobalAlpha 0.70);
        d3 \<leftarrow> rng;
        fillGlow (Some (hsl (real_of_int (baseHue palette + 40 + li * 11)) 86 54
                    (0.10 + d3 * 0.18))) fill (Some 14);
        ctx Fill;
        ctx (SetGlobalAlpha 0.95);
        strokeGlow stroke lw stroke (Some 12);
        ctx Stroke
      } else State_Monad.return ());
     ctx Restore
   }"

text \<open>
  One layer (source lines 193 to 272): the body of \<^verbatim>\<open>for (let li = 0; li < layers; li++)\<close>.
  \<^verbatim>\<open>
  const t = li / (layers - 1);
  const r0 = R * (0.07 + t * 0.85);
  const r1 = r0 + R * (0.05 + rng() * 0.10);
  const stroke = pick(rng, inks);
  const fill = pick(rng, inks);
  const kind = pick(rng, ["petal", "band", "rays", "dots", "triangles"]);
  const lw = minDim * (0.0012 + rng() * 0.0026);
  for (let si = 0; si < segments; si++) { ... }
  \<close>
\<close>

definition layer ::
  "palette \<Rightarrow> color list \<Rightarrow> real \<Rightarrow> real \<Rightarrow> real \<Rightarrow> int \<Rightarrow> int \<Rightarrow> int \<Rightarrow> (world, unit) state" where
  "layer palette inks R minDim step segments layers li = do {
     t \<leftarrow> divide (real_of_int li) (real_of_int (layers - 1));
     let r0 = R * (0.07 + t * 0.85);
     d0 \<leftarrow> rng;
     let r1 = r0 + R * (0.05 + d0 * 0.10);
     stroke \<leftarrow> pick inks;
     fill \<leftarrow> pick inks;
     kind \<leftarrow> pick [Petal, Band, Rays, Dots, Triangles];
     chose (Kind li kind);
     d1 \<leftarrow> rng;
     let lw = minDim * (0.0012 + d1 * 0.0026);
     for_loop segments (segment palette inks R minDim step li r0 r1 stroke fill kind lw)
   }"

text \<open>
  One petal of the center rosette (source lines 278 to 292):
  \<^verbatim>\<open>
  for (let i = 0; i < centerPetals; i++) {
    ctx.save();
    ctx.rotate(i * cStep);
    const r0 = R * 0.02;
    const r1 = R * (0.10 + rng() * 0.08);
    const width = R * (0.03 + rng() * 0.05);
    drawPetal(ctx, r0, r1, width, rng);
    ctx.globalAlpha = 0.9;
    fillGlow(ctx, hsl(palette.baseHue + i * 7, 90, 60, 0.16), palette.ink, 14);
    ctx.fill();
    ctx.globalAlpha = 0.95;
    strokeGlow(ctx, palette.white, minDim * 0.0016, palette.white, 12);
    ctx.stroke();
    ctx.restore();
  }
  \<close>
\<close>

definition rosette_petal :: "palette \<Rightarrow> real \<Rightarrow> real \<Rightarrow> real \<Rightarrow> int \<Rightarrow> (world, unit) state" where
  "rosette_petal palette R minDim cStep i = do {
     ctx Save;
     ctx (Rotate (real_of_int i * cStep));
     let r0 = R * 0.02;
     d0 \<leftarrow> rng;
     let r1 = R * (0.10 + d0 * 0.08);
     d1 \<leftarrow> rng;
     let width = R * (0.03 + d1 * 0.05);
     drawPetal r0 r1 width;
     ctx (SetGlobalAlpha 0.9);
     fillGlow (Some (hsl (real_of_int (baseHue palette + i * 7)) 90 60 0.16))
       (Some (ink palette)) (Some 14);
     ctx Fill;
     ctx (SetGlobalAlpha 0.95);
     strokeGlow (Some (white palette)) (minDim * 0.0016) (Some (white palette)) (Some 12);
     ctx Stroke;
     ctx Restore
   }"

text \<open>
  The guide ring (source lines 184 to 189), the center dot (lines 296 to 302) and the
  signature (lines 307 to 315, run when \<^verbatim>\<open>options?.signature\<close> is truthy).
\<close>

definition guide_ring :: "palette \<Rightarrow> real \<Rightarrow> real \<Rightarrow> (world, unit) state" where
  "guide_ring palette R minDim = do {
     ctx Save;
     strokeGlow (Some (hsl (real_of_int (baseHue palette)) 80 70 0.12)) (minDim * 0.0022)
       (Some (hsl (real_of_int (baseHue palette)) 90 70 0.18)) (Some 18);
     ctx BeginPath;
     ctx (Arc 0 0 (R * 0.98) 0 (pi * 2) False);
     ctx Stroke;
     ctx Restore
   }"

definition center_dot :: "palette \<Rightarrow> real \<Rightarrow> (world, unit) state" where
  "center_dot palette R = do {
     ctx Save;
     ctx (SetGlobalAlpha 0.95);
     fillGlow (Some (gold palette)) (Some (gold palette)) (Some 18);
     ctx BeginPath;
     ctx (Arc 0 0 (R * 0.018) 0 (pi * 2) False);
     ctx Fill;
     ctx Restore
   }"

definition signature :: "jsstring \<Rightarrow> real \<Rightarrow> real \<Rightarrow> (world, unit) state" where
  "signature word w h = do {
     ctx Save;
     ctx (SetGlobalAlpha 0.12);
     ctx (SetFillStyle (Some (Rgba 255 255 255 0.55)));
     ctx (SetFont (max 12 \<lfloor>w * 0.02\<rfloor>));
     ctx (SetTextAlign ''center'');
     ctx (FillText word (w / 2) (h - real_of_int (max 14 \<lfloor>w * 0.03\<rfloor>)));
     ctx Restore
   }"

text \<open>
  \<^verbatim>\<open>
  function drawMandala(ctx, word, seed, options) {
    const w = ctx.canvas.width;
    const h = ctx.canvas.height;
    const rng = mulberry32(seed);
    const palette = makePalette(rng);
    drawBackground(ctx, w, h, rng, palette);
    ctx.save();
    ctx.translate(w / 2, h / 2);
    const minDim = Math.min(w, h);
    const R = minDim * 0.44;
    ctx.rotate((rng() - 0.5) * 0.18);
    const segments = clamp(Math.floor(8 + rng() * 18), 8, 26);
    const layers = clamp(Math.floor(7 + rng() * 7), 7, 14);
    const step = (Math.PI * 2) / segments;
    ... guide ring ...
    const inks = [palette.ink, palette.ink2, palette.ink3, palette.ink4, palette.gold, palette.white];
    for (let li = 0; li < layers; li++) { ... }
    ctx.save();
    const centerPetals = clamp(Math.floor(10 + rng() * 18), 10, 30);
    const cStep = (Math.PI * 2) / centerPetals;
    for (let i = 0; i < centerPetals; i++) { ... }
    ctx.restore();
    ... center dot ...
    ctx.restore();
    if (options?.signature) { ... }
  }
  \<close>
  \<open>options\<close> is \<open>None\<close> when the argument is missing, else the truth value of its
  \<^verbatim>\<open>signature\<close>. The body is cut at two places: \<open>drawMandala\<close> reads the size of the
  canvas, \<open>render\<close> creates the generator and the palette, and \<open>paint\<close> is all that
  follows, from \<^verbatim>\<open>drawBackground\<close> on.
\<close>

definition paint :: "real \<Rightarrow> real \<Rightarrow> jsstring \<Rightarrow> bool option \<Rightarrow> palette \<Rightarrow> (world, unit) state" where
  "paint w h word options palette = do {
     drawBackground w h palette;
     ctx Save;
     ctx (Translate (w / 2) (h / 2));
     let minDim = min w h;
     let R = minDim * 0.44;
     d0 \<leftarrow> rng;
     ctx (Rotate ((d0 - 0.5) * 0.18));
     d1 \<leftarrow> rng;
     let segments = clamp \<lfloor>8 + d1 * 18\<rfloor> 8 26;
     chose (Segments segments);
     d2 \<leftarrow> rng;
     let layers = clamp \<lfloor>7 + d2 * 7\<rfloor> 7 14;
     chose (Layers layers);
     step \<leftarrow> divide (pi * 2) (real_of_int segments);
     guide_ring palette R minDim;
     let inks = [ink palette, ink2 palette, ink3 palette, ink4 palette, gold palette,
                 white palette];
     for_loop layers (layer palette inks R minDim step segments layers);
     ctx Save;
     d3 \<leftarrow> rng;
     let centerPetals = clamp \<lfloor>10 + d3 * 18\<rfloor> 10 30;
     chose (CenterPetals centerPetals);
     cStep \<leftarrow> divide (pi * 2) (real_of_int centerPetals);
     for_loop centerPetals (rosette_petal palette R minDim cStep);
     ctx Restore;
     center_dot palette R;
     ctx Restore;
     (if options = Some True then signature word w h else State_Monad.return ())
   }"

definition render :: "real \<Rightarrow> real \<Rightarrow> jsstring \<Rightarrow> int \<Rightarrow> bool option \<Rightarrow> (world, unit) state" where
  "render w h word seed options = do {
     new_rng seed;
     palette \<leftarrow> makePalette;
     paint w h word options palette
   }"

definition drawMandala :: "jsstring \<Rightarrow> int \<Rightarrow> bool option \<Rightarrow> (world, unit) state" where
  "drawMandala word seed options = do {
     s \<leftarrow> State_Monad.get;
     render (real (canvas_width s)) (real (canvas_height s)) word seed options
   }"

text \<open>What a computation adds to the calls and to the choices of the state it starts in.\<close>

definition new_calls :: "(world, 'a) state \<Rightarrow> world \<Rightarrow> cmd list" where
  "new_calls m s = drop (length (issued s)) (issued (snd (run_state m s)))"

definition new_choices :: "(world, 'a) state \<Rightarrow> world \<Rightarrow> selection list" where
  "new_choices m s = drop (length (selected s)) (selected (snd (run_state m s)))"

text \<open>The state of the generator after \<open>n\<close> more draws.\<close>

definition skip :: "nat \<Rightarrow> int \<Rightarrow> int" where
  "skip n a = ((\<lambda>a. snd (mulberry32_call a)) ^^ n) a"

definition draw_at :: "nat \<Rightarrow> int \<Rightarrow> real" where
  "draw_at n a = fst (mulberry32_call (skip n a))"

text \<open>A fresh canvas of a given size.\<close>

definition blank :: "nat \<Rightarrow> nat \<Rightarrow> world" where
  "blank w h = \<lparr>canvas_width = w, canvas_height = h, rng_a = 0, issued = [], selected = [],
     divz = False\<rparr>"

text \<open>The recorded kinds of consecutive layers, from layer \<open>i\<close> on, each one of the five
  motifs.\<close>

fun kinds_from :: "int \<Rightarrow> selection list \<Rightarrow> bool" where
  "kinds_from i [] = True"
| "kinds_from i (Kind li (Some m) # xs) = (li = i \<and> kinds_from (i + 1) xs)"
| "kinds_from i (x # xs) = False"

text \<open>A canvas of a given size on which an earlier render has left its traces.\<close>

definition used :: "nat \<Rightarrow> nat \<Rightarrow> world" where
  "used w h = \<lparr>canvas_width = w, canvas_height = h, rng_a = 1831565813,
     issued = [Save, Fill, Restore], selected = [Layers 9], divz = False\<rparr>"

text \<open>
  The numbers that decide the structure are exact in double precision: each is an integer
  of magnitude below \<open>2^53\<close> divided by \<open>2^32\<close>, so \<^verbatim>\<open>Math.floor\<close> sees the same value
  as \<open>\<lfloor>_\<rfloor>\<close> on the reals.
\<close>

definition exact32 :: "real \<Rightarrow> bool" where
  "exact32 x \<longleftrightarrow> (\<exists>k :: int. \<bar>k\<bar> < 2 ^ 53 \<and> x = real_of_int k / 4294967296)"

section \<open>Judgments about computations\<close>

text \<open>\<open>unchanged f m\<close>: running \<open>m\<close> leaves the component \<open>f\<close> of the state as it was.\<close>

definition unchanged :: "(world \<Rightarrow> 'b) \<Rightarrow> (world, 'a) state \<Rightarrow> bool" where
  "unchanged f m \<longleftrightarrow> (\<forall>s. f (snd (run_state m s)) = f s)"

text \<open>
  \<open>sim R m m'\<close>: from states related by \<open>R\<close>, the two computations return the same value
  and end in states related by \<open>R\<close>.
\<close>

definition sim ::
  "(world \<Rightarrow> world \<Rightarrow> bool) \<Rightarrow> (world, 'a) state \<Rightarrow> (world, 'a) state \<Rightarrow> bool" where
  "sim R m m' \<longleftrightarrow>
     (\<forall>s s'. R s s' \<longrightarrow>
        fst (run_state m s) = fst (run_state m' s') \<and>
        R (snd (run_state m s)) (snd (run_state m' s')))"

text \<open>
  Two states agree when their generators are in the same state and they have recorded the
  same choices since positions \<open>k\<close> and \<open>k'\<close>; with \<open>full\<close> they have also issued the same
  calls since positions \<open>j\<close> and \<open>j'\<close>.
\<close>

definition agree :: "bool \<Rightarrow> nat \<Rightarrow> nat \<Rightarrow> nat \<Rightarrow> nat \<Rightarrow> world \<Rightarrow> world \<Rightarrow> bool" where
  "agree full k k' j j' s s' \<longleftrightarrow>
     rng_a s = rng_a s'
     \<and> k \<le> length (selected s) \<and> k' \<le> length (selected s')
     \<and> drop k (selected s) = drop k' (selected s')
     \<and> (full \<longrightarrow> j \<le> length (issued s) \<and> j' \<le> length (issued s')
           \<and> drop j (issued s) = drop j' (issued s'))"

text \<open>
  \<open>tracked pre xs a\<close> holds of a state that has recorded the choices \<open>xs\<close> after \<open>pre\<close>
  and whose generator is in state \<open>a\<close>; \<open>post m P Q\<close>: from a state in \<open>P\<close>, \<open>m\<close> ends in
  a state in \<open>Q\<close>.
\<close>

definition tracked :: "selection list \<Rightarrow> selection list \<Rightarrow> int \<Rightarrow> world \<Rightarrow> bool" where
  "tracked pre xs a t \<longleftrightarrow> selected t = pre @ xs \<and> rng_a t = a"

definition post :: "(world, 'a) state \<Rightarrow> (world \<Rightarrow> bool) \<Rightarrow> (world \<Rightarrow> bool) \<Rightarrow> bool" where
  "post m P Q \<longleftrightarrow> (\<forall>s. P s \<longrightarrow> Q (snd (run_state m s)))"

section \<open>Properties of the hasher\<close>

lemma rotl_high_bits: "\<not> n < 13 \<Longrightarrow> \<not> bit (h :: int32) (19 + n)"
proof
  assume a: "\<not> n < 13" and b: "bit h (19 + n)"
  from b have "19 + n < LENGTH(32)" by (rule bit_imp_le_length)
  with a show False by simp
qed

lemma shift_or_is_rotl: "push_bit 13 h OR drop_bit 19 h = word_rotl 13 (h :: int32)"
proof (rule bit_word_eqI)
  fix n assume n: "n < LENGTH(32)"
  show "bit (push_bit 13 h OR drop_bit 19 h) n = bit (word_rotl 13 h) n"
  proof (cases "n < 13")
    case True
    then have "(n + 19) mod 32 = n + 19" by simp
    with True n show ?thesis by (simp add: bit_simps add.commute)
  next
    case False
    with n have m: "(n + 19) mod 32 = n - 13"
      by (simp add: mod_if)
    from False have "\<not> bit h (19 + n)" by (rule rotl_high_bits)
    with False n m show ?thesis by (simp add: bit_simps)
  qed
qed

lemma xmur3_loop_spec:
  "i \<le> length str \<Longrightarrow> xmur3_loop str i h = foldl spec_mix h (drop i str)"
proof (induction str i h rule: xmur3_loop.induct)
  case (1 str i h)
  show ?case
  proof (cases "i < length str")
    case True
    then have d: "drop i str = str ! i # drop (Suc i) str"
      by (simp add: Cons_nth_drop_Suc)
    from True have "xmur3_loop str i h =
        xmur3_loop str (i + 1) (word_rotl 13 ((h XOR ucast (str ! i)) * 3432918353))"
      by (subst xmur3_loop.simps) (simp add: Let_def shift_or_is_rotl)
    also have "\<dots> =
        foldl spec_mix (word_rotl 13 ((h XOR ucast (str ! i)) * 3432918353)) (drop (i + 1) str)"
      using True by (intro "1.IH") (simp_all add: shift_or_is_rotl)
    finally show ?thesis by (simp add: d) (simp add: spec_mix_def)
  next
    case False
    with "1.prems" show ?thesis by (subst xmur3_loop.simps) simp
  qed
qed

lemma xmur3_spec: "xmur3 str = spec_hash_init str"
  by (simp add: xmur3_def spec_hash_init_def xmur3_loop_spec)

lemma xmur3_call_spec: "xmur3_call h = (uint (spec_avalanche h), spec_avalanche h)"
  by (simp add: xmur3_call_def spec_avalanche_def Let_def)

lemma computeSeed_spec: "computeSeed U word = spec_seed (toLowerCase U word)"
  by (simp add: computeSeed_def spec_seed_def spec_stream_def xmur3_spec xmur3_call_spec
      Let_def eval_nat_numeral)

lemma spec_seed_uint32: "0 \<le> spec_seed s \<and> spec_seed s < 2 ^ 32"
  unfolding spec_seed_def using uint_bounded [of "spec_stream s 0 XOR spec_stream s 1 XOR spec_stream s 2"]
  by simp

lemma ascii_lower_idem: "ascii_lower (ascii_lower c) = ascii_lower c"
  unfolding ascii_lower_def by (simp add: word_le_nat_alt) unat_arith

lemma ascii_lower_ascii: "c < 0x80 \<Longrightarrow> ascii_lower c < 0x80"
  unfolding ascii_lower_def by (simp add: word_le_nat_alt word_less_nat_alt) unat_arith

lemma toLowerCase_ascii_idem:
  "toLowerCase (\<lambda>s. s) (toLowerCase (\<lambda>s. s) s) = toLowerCase (\<lambda>s. s) s"
  by (auto simp: toLowerCase_def list_all_iff ascii_lower_idem ascii_lower_ascii)

lemma lower_Harmony: "toLowerCase U (js ''Harmony'') = js ''harmony''"
  by (simp add: toLowerCase_def js_def ascii_lower_def)

lemma lower_HARMONY: "toLowerCase U (js ''HARMONY'') = js ''harmony''"
  by (simp add: toLowerCase_def js_def ascii_lower_def)

lemma lower_harmony: "toLowerCase U (js ''harmony'') = js ''harmony''"
  by (simp add: toLowerCase_def js_def ascii_lower_def)

text \<open>
  Claim C2. For every string, \<open>computeSeed\<close> is the exclusive or of the first three
  outputs of the hash stream of the lower-cased word, where the stream starts at
  \<open>1779033703 XOR length\<close> and mixes each code unit by a 32-bit multiplication with
  3432918353 and a rotation to the left by 13; the result is an unsigned 32-bit integer.
  The three spellings of "harmony" have the same seed, and a word has the seed of its
  lower-cased form whenever lower-casing that form again changes nothing (which holds of
  the platform's lower-casing).
\<close>

theorem computeSeed_is_spec_seed:
  "computeSeed U w = spec_seed (toLowerCase U w)
   \<and> 0 \<le> computeSeed U w \<and> computeSeed U w < 2 ^ 32
   \<and> computeSeed U (js ''Harmony'') = computeSeed U (js ''harmony'')
   \<and> computeSeed U (js ''HARMONY'') = computeSeed U (js ''harmony'')
   \<and> (toLowerCase U (toLowerCase U w) = toLowerCase U w \<longrightarrow>
        computeSeed U (toLowerCase U w) = computeSeed U w)"
proof -
  have "computeSeed U (js ''Harmony'') = computeSeed U (js ''harmony'')"
    by (simp add: computeSeed_spec lower_Harmony lower_harmony)
  moreover have "computeSeed U (js ''HARMONY'') = computeSeed U (js ''harmony'')"
    by (simp add: computeSeed_spec lower_HARMONY lower_harmony)
  ultimately show ?thesis
    using spec_seed_uint32 [of "toLowerCase U w"] by (simp add: computeSeed_spec)
qed

text \<open>The seed of "ocean", computed by the model.\<close>

lemma spec_seed_ocean: "spec_seed (js ''ocean'') = 2447940024"
  by code_simp

theorem computeSeed_is_spec_seed_witness:
  "toLowerCase (\<lambda>s. s) (toLowerCase (\<lambda>s. s) (js ''Ocean'')) = toLowerCase (\<lambda>s. s) (js ''Ocean'')
   \<and> computeSeed (\<lambda>s. s) (js ''Ocean'') = spec_seed (js ''ocean'')
   \<and> computeSeed (\<lambda>s. s) (js ''Ocean'') = 2447940024
   \<and> computeSeed (\<lambda>s. s) (js ''ocean'') = computeSeed (\<lambda>s. s) (js ''Ocean'')"
proof -
  have idem: "toLowerCase (\<lambda>s. s) (toLowerCase (\<lambda>s. s) (js ''Ocean''))
      = toLowerCase (\<lambda>s. s) (js ''Ocean'')"
    by (rule toLowerCase_ascii_idem)
  have low: "toLowerCase (\<lambda>s. s) (js ''Ocean'') = js ''ocean''"
    by (simp add: toLowerCase_def js_def ascii_lower_def)
  show ?thesis
    using computeSeed_is_spec_seed [of "\<lambda>s. s" "js ''Ocean''"] idem
    by (simp add: low spec_seed_ocean)
qed

section \<open>Properties of the generator\<close>

lemma mulberry32_call_form:
  "\<exists>u :: int32. fst (mulberry32_call a) = real_of_int (uint u) / 4294967296"
  unfolding mulberry32_call_def Let_def fst_conv by (rule exI, rule refl)

lemma mulberry32_call_state: "snd (mulberry32_call a) = to_double (a + 0x6d2b79f5)"
  by (simp add: mulberry32_call_def Let_def)

lemma unit_interval_aux:
  "0 \<le> k \<Longrightarrow> k < 4294967296 \<Longrightarrow>
   0 \<le> real_of_int k / 4294967296 \<and> real_of_int k / 4294967296 < 1"
  by simp

lemma mulberry32_call_range:
  "0 \<le> fst (mulberry32_call a) \<and> fst (mulberry32_call a) < 1"
proof -
  obtain u :: int32 where u: "fst (mulberry32_call a) = real_of_int (uint u) / 4294967296"
    using mulberry32_call_form by blast
  have "0 \<le> uint u" and "uint u < 4294967296"
    using uint_bounded [of u] by simp_all
  then show ?thesis
    unfolding u by (rule unit_interval_aux)
qed

text \<open>The first three draws of the generator seeded with 0, to six decimal places.\<close>

lemma first_draws_of_seed_0:
  "map (\<lambda>d. \<lfloor>d * 1000000\<rfloor>) (draws 3 0) = [266429, 329, 223272]"
  by code_simp

lemma run_calls_outputs:
  "set gs \<subseteq> {..<length st} \<Longrightarrow>
   \<exists>outs. run_calls gs st = Some outs \<and>
     (\<forall>p \<in> set outs. 0 \<le> snd p \<and> snd p < 1) \<and>
     (\<forall>g < length st. outputs_of g outs = draws (count_list gs g) (st ! g))"
proof (induction gs arbitrary: st)
  case Nil
  show ?case by (simp add: outputs_of_def)
next
  case (Cons g gs)
  then have g: "g < length st" by simp
  obtain v a' where c: "mulberry32_call (st ! g) = (v, a')"
    by (cases "mulberry32_call (st ! g)")
  let ?st = "st[g := a']"
  from Cons.prems have "set gs \<subseteq> {..<length ?st}" by simp
  from Cons.IH [OF this] obtain outs where
    r: "run_calls gs ?st = Some outs"
    and b: "\<forall>p \<in> set outs. 0 \<le> snd p \<and> snd p < 1"
    and o: "\<forall>k < length ?st. outputs_of k outs = draws (count_list gs k) (?st ! k)"
    by blast
  have v: "0 \<le> v \<and> v < 1"
    using mulberry32_call_range [of "st ! g"] c by simp
  have "run_calls (g # gs) st = Some ((g, v) # outs)"
    using g c r by (simp add: call_rng_def)
  moreover have "\<forall>p \<in> set ((g, v) # outs). 0 \<le> snd p \<and> snd p < 1"
    using b v by simp
  moreover have
    "\<forall>k < length st. outputs_of k ((g, v) # outs) = draws (count_list (g # gs) k) (st ! k)"
  proof (intro allI impI)
    fix k assume k: "k < length st"
    with o have ok: "outputs_of k outs = draws (count_list gs k) (?st ! k)" by simp
    show "outputs_of k ((g, v) # outs) = draws (count_list (g # gs) k) (st ! k)"
    proof (cases "k = g")
      case True
      with ok g c show ?thesis by (simp add: outputs_of_def)
    next
      case False
      with ok show ?thesis by (simp add: outputs_of_def)
    qed
  qed
  ultimately show ?case by blast
qed

text \<open>
  Claim C3. For every 32-bit seed, every value drawn from a generator made by
  \<open>mulberry32\<close> lies in \<open>[0, 1)\<close>, and two fresh generators made from the same seed
  produce the same sequence, however their calls are interleaved: the values each of
  them returns are the first values of the one stream \<open>draws\<close> of that seed. With
  seed 0 and 100000 calls of each, both return \<open>draws 100000 0\<close>.
\<close>

theorem mulberry32_range_and_reproducible:
  assumes "mulberry32 seed st = (g1, st1)"
    and "mulberry32 seed st1 = (g2, st2)"
    and "set gs \<subseteq> {g1, g2}"
  shows "\<exists>outs. run_calls gs st2 = Some outs
    \<and> (\<forall>p \<in> set outs. 0 \<le> snd p \<and> snd p < 1)
    \<and> g1 \<noteq> g2
    \<and> outputs_of g1 outs = draws (count_list gs g1) seed
    \<and> outputs_of g2 outs = draws (count_list gs g2) seed"
proof -
  from assms(1,2) have g: "g1 = length st" "g2 = Suc (length st)"
    and st2: "st2 = st @ [seed, seed]"
    by (auto simp: mulberry32_def)
  from assms(3) g st2 have "set gs \<subseteq> {..<length st2}" by auto
  from run_calls_outputs [OF this] obtain outs where
    r: "run_calls gs st2 = Some outs"
    and b: "\<forall>p \<in> set outs. 0 \<le> snd p \<and> snd p < 1"
    and o: "\<forall>k < length st2. outputs_of k outs = draws (count_list gs k) (st2 ! k)"
    by blast
  from o g st2 have "outputs_of g1 outs = draws (count_list gs g1) seed"
    by (simp add: nth_append)
  moreover from o g st2 have "outputs_of g2 outs = draws (count_list gs g2) seed"
    by (simp add: nth_append)
  ultimately show ?thesis using r b g by auto
qed

lemma count_list_replicate: "count_list (replicate n x) y = (if x = y then n else 0)"
  by (induction n) auto

lemma two_runs_schedule:
  "set (replicate n (0 :: nat) @ replicate n 1) \<subseteq> {0, 1}
   \<and> count_list (replicate n (0 :: nat) @ replicate n 1) 0 = n
   \<and> count_list (replicate n (0 :: nat) @ replicate n 1) 1 = n"
  by (auto simp: count_list_replicate)

theorem mulberry32_range_and_reproducible_witness:
  "mulberry32 0 [] = (0, [0]) \<and> mulberry32 0 [0] = (1, [0, 0])
   \<and> set (replicate 100000 (0 :: nat) @ replicate 100000 1) \<subseteq> {0, 1}
   \<and> (\<exists>outs. run_calls (replicate 100000 0 @ replicate 100000 1) [0, 0] = Some outs
        \<and> list_all (\<lambda>p. 0 \<le> snd p \<and> snd p < 1) outs
        \<and> outputs_of 0 outs = draws 100000 0 \<and> outputs_of 1 outs = draws 100000 0)"
proof -
  let ?gs = "replicate 100000 (0 :: nat) @ replicate 100000 1"
  have a: "mulberry32 0 [] = (0, [0])" and b: "mulberry32 0 [0] = (1, [0, 0])"
    by (simp_all add: mulberry32_def)
  have c: "set ?gs \<subseteq> {0, 1}"
    and n: "count_list ?gs 0 = 100000" "count_list ?gs 1 = 100000"
    using two_runs_schedule [of 100000] by blast+
  from mulberry32_range_and_reproducible [OF a b c] obtain outs where
    "run_calls ?gs [0, 0] = Some outs"
    "\<forall>p \<in> set outs. 0 \<le> snd p \<and> snd p < 1"
    "outputs_of 0 outs = draws (count_list ?gs 0) 0"
    "outputs_of 1 outs = draws (count_list ?gs 1) 0"
    by blast
  then have "\<exists>outs. run_calls ?gs [0, 0] = Some outs
      \<and> list_all (\<lambda>p. 0 \<le> snd p \<and> snd p < 1) outs
      \<and> outputs_of 0 outs = draws 100000 0 \<and> outputs_of 1 outs = draws 100000 0"
    unfolding n list_all_iff by blast
  with a b c show ?thesis by blast
qed

section \<open>Properties of sanitizeWord\<close>

lemma index0_split_ws: "index0 (split_ws s) = Some (first_token s)"
  by (subst split_ws.simps) (simp add: index0_def first_token_def Let_def)

lemma sanitizeWord_eq: "sanitizeWord raw = take 32 (first_token (trim raw))"
  by (simp add: sanitizeWord_def index0_split_ws or_undef_def or_str_def)

lemma take_codepoints_bmp:
  "\<forall>c \<in> set s. \<not> is_high c \<Longrightarrow> take_codepoints n s = take n s"
  by (induction n s rule: take_codepoints.induct) simp_all

lemma codepoints_le_length: "codepoints s \<le> length s"
  by (induction s rule: codepoints.induct) auto

lemma sanitizeWord_nonspace: "\<forall>c \<in> set (sanitizeWord raw). nonspace c"
  unfolding sanitizeWord_eq first_token_def
  by (meson in_set_takeD set_takeWhileD)

lemma dropWhile_none: "\<forall>c \<in> set s. \<not> P c \<Longrightarrow> dropWhile P s = s"
  by (cases s) simp_all

lemma trim_nonspace: "\<forall>c \<in> set s. nonspace c \<Longrightarrow> trim s = s"
  by (simp add: trim_def nonspace_def dropWhile_none)

lemma codepoints_astral: "codepoints (astral n) = n"
  by (induction n) (simp_all add: astral_def is_high_def is_low_def)

lemma nonspace_astral: "\<forall>c \<in> set (astral n). nonspace c"
  by (auto simp: astral_def nonspace_def isWhiteSpace_def)

lemma astral_add: "astral (m + n) = astral m @ astral n"
  by (simp add: astral_def replicate_add)

lemma length_astral: "length (astral n) = 2 * n"
  by (induction n) (simp_all add: astral_def)

lemma take_astral: "take 32 (astral 33) = astral 16"
proof -
  have "astral 33 = astral 16 @ astral 17"
    using astral_add [of 16 17] by simp
  then show ?thesis by (simp add: length_astral)
qed

lemma first_token_astral: "first_token (trim (astral n)) = astral n"
  using nonspace_astral [of n] by (simp add: trim_nonspace first_token_def)

lemma take_codepoints_astral: "take_codepoints m (astral (m + n)) = astral m"
  by (induction m) (simp_all add: astral_def is_high_def is_low_def)

text \<open>
  Claim C4, as stated, fails. A first token of 33 astral code points (66 code units) is cut
  by \<^verbatim>\<open>slice(0, 32)\<close> to 32 code units, that is 16 code points, where the Word of the
  specification keeps 32 code points.
\<close>

theorem sanitizeWord_astral_counterexample:
  "codepoints (first_token (trim (astral 33))) = 33
   \<and> codepoints (sanitizeWord (astral 33)) = 16
   \<and> codepoints (spec_word (astral 33)) = 32
   \<and> sanitizeWord (astral 33) \<noteq> spec_word (astral 33)"
proof -
  have a: "sanitizeWord (astral 33) = astral 16"
    by (simp add: sanitizeWord_eq first_token_astral take_astral)
  have b: "spec_word (astral 33) = astral 32"
    using take_codepoints_astral [of 32 1] by (simp add: spec_word_def first_token_astral)
  have "astral 16 \<noteq> astral 32"
  proof
    assume "astral 16 = astral 32"
    then have "length (astral 16) = length (astral 32)" by simp
    then show False by (simp add: length_astral)
  qed
  with a b show ?thesis
    by (simp add: first_token_astral codepoints_astral)
qed

text \<open>
  Claim C4, amended. For every input string, \<open>sanitizeWord\<close> returns the input trimmed
  of surrounding white space, truncated to its first white-space-delimited token, and
  capped at 32 UTF-16 code units. The result so has at most 32 code points, and when the
  first token has no high surrogate it is the token capped at 32 code points.
\<close>

theorem sanitizeWord_caps_code_units:
  "sanitizeWord raw = take 32 (first_token (trim raw))
   \<and> length (sanitizeWord raw) \<le> 32
   \<and> codepoints (sanitizeWord raw) \<le> 32
   \<and> ((\<forall>c \<in> set (first_token (trim raw)). \<not> is_high c) \<longrightarrow> sanitizeWord raw = spec_word raw)"
proof -
  have "length (sanitizeWord raw) \<le> 32"
    by (simp add: sanitizeWord_eq)
  moreover from this have "codepoints (sanitizeWord raw) \<le> 32"
    using codepoints_le_length [of "sanitizeWord raw"] by linarith
  ultimately show ?thesis
    by (simp add: sanitizeWord_eq spec_word_def take_codepoints_bmp)
qed

theorem sanitizeWord_caps_code_units_witness:
  "list_all (\<lambda>c. \<not> is_high c) (first_token (trim (js '' lotus flower '')))
   \<and> sanitizeWord (js '' lotus flower '') = spec_word (js '' lotus flower '')
   \<and> sanitizeWord (js '' lotus flower '') = js ''lotus''"
proof -
  have t: "first_token (trim (js '' lotus flower '')) = js ''lotus''"
    by (simp add: first_token_def trim_def js_def nonspace_def isWhiteSpace_def)
  have h: "\<forall>c \<in> set (first_token (trim (js '' lotus flower ''))). \<not> is_high c"
    unfolding t by (simp add: js_def is_high_def)
  have "sanitizeWord (js '' lotus flower '') = take 32 (first_token (trim (js '' lotus flower '')))"
    using sanitizeWord_caps_code_units [of "js '' lotus flower ''"] by (rule conjunct1)
  also have "\<dots> = take 32 (js ''lotus'')"
    by (simp only: t)
  also have "\<dots> = js ''lotus''"
    by (simp add: js_def)
  finally have r: "sanitizeWord (js '' lotus flower '') = js ''lotus''" .
  from h sanitizeWord_caps_code_units [of "js '' lotus flower ''"]
  have "sanitizeWord (js '' lotus flower '') = spec_word (js '' lotus flower '')"
    by blast
  with h r show ?thesis by (simp add: list_all_iff)
qed

text \<open>
  Claim C10. \<open>sanitizeWord\<close> is idempotent, and its result never contains a white-space
  code unit.
\<close>

theorem sanitizeWord_idempotent:
  "sanitizeWord (sanitizeWord x) = sanitizeWord x
   \<and> (\<forall>c \<in> set (sanitizeWord x). \<not> isWhiteSpace c)"
proof -
  let ?r = "sanitizeWord x"
  have ns: "\<forall>c \<in> set ?r. nonspace c" by (rule sanitizeWord_nonspace)
  have len: "length ?r \<le> 32" by (simp add: sanitizeWord_eq)
  have "sanitizeWord ?r = take 32 (first_token (trim ?r))" by (rule sanitizeWord_eq)
  also have "trim ?r = ?r" using ns by (rule trim_nonspace)
  also have "first_token ?r = ?r" using ns by (simp add: first_token_def)
  also have "take 32 ?r = ?r" using len by simp
  finally show ?thesis using ns by (simp add: nonspace_def)
qed

theorem sanitizeWord_idempotent_witness:
  "sanitizeWord (sanitizeWord (js '' lotus flower '')) = sanitizeWord (js '' lotus flower '')
   \<and> list_all (\<lambda>c. \<not> isWhiteSpace c) (sanitizeWord (js '' lotus flower ''))"
  using sanitizeWord_idempotent [of "js '' lotus flower ''"] by (simp add: list_all_iff)

section \<open>Rules for the judgments\<close>

lemma run_ctx: "run_state (ctx c) s = ((), s\<lparr>issued := issued s @ [c]\<rparr>)"
  by (simp add: ctx_def)

lemma run_chose: "run_state (chose x) s = ((), s\<lparr>selected := selected s @ [x]\<rparr>)"
  by (simp add: chose_def)

lemma run_new_rng: "run_state (new_rng seed) s = ((), s\<lparr>rng_a := seed\<rparr>)"
  by (simp add: new_rng_def)

lemma run_rng:
  "run_state rng s = (fst (mulberry32_call (rng_a s)), s\<lparr>rng_a := snd (mulberry32_call (rng_a s))\<rparr>)"
  by (simp add: rng_def)

lemma run_divide: "run_state (divide x y) s = (x / y, s\<lparr>divz := (divz s \<or> y = 0)\<rparr>)"
  by (simp add: divide_def)

lemma run_pick:
  "run_state (pick arr) s =
     (element arr \<lfloor>fst (mulberry32_call (rng_a s)) * real (length arr)\<rfloor>,
      s\<lparr>rng_a := snd (mulberry32_call (rng_a s))\<rparr>)"
  by (simp add: pick_def run_rng)

lemmas run_prims = run_ctx run_chose run_new_rng run_rng run_divide run_pick

subsection \<open>Components that a computation leaves alone\<close>

lemma unchanged_return: "unchanged f (State_Monad.return x)"
  by (simp add: unchanged_def)

lemma unchanged_bind:
  "unchanged f m \<Longrightarrow> (\<And>x. unchanged f (g x)) \<Longrightarrow> unchanged f (State_Monad.bind m g)"
  by (simp add: unchanged_def split_beta)

lemma unchanged_if:
  "unchanged f m \<Longrightarrow> unchanged f m' \<Longrightarrow> unchanged f (if c then m else m')"
  by simp

lemma unchanged_iterate:
  "(\<And>i. unchanged f (body i)) \<Longrightarrow> unchanged f (iterate k i body)"
  by (induction k arbitrary: i) (simp_all add: unchanged_return unchanged_bind)

lemma unchanged_for_loop:
  "(\<And>i. unchanged f (body i)) \<Longrightarrow> unchanged f (for_loop n body)"
  by (simp add: for_loop_def unchanged_iterate)

lemmas unchanged_rules =
  unchanged_return unchanged_bind unchanged_if unchanged_for_loop

lemma divz_prims:
  "unchanged divz (ctx c)"
  "unchanged divz (chose e)"
  "unchanged divz (new_rng seed)"
  "unchanged divz rng"
  "unchanged divz (pick arr)"
  "y \<noteq> 0 \<Longrightarrow> unchanged divz (divide x y)"
  by (simp_all add: unchanged_def run_prims)

lemma selected_prims:
  "unchanged selected (ctx c)"
  "unchanged selected (new_rng seed)"
  "unchanged selected rng"
  "unchanged selected (pick arr)"
  "unchanged selected (divide x y)"
  by (simp_all add: unchanged_def run_prims)

lemma size_prims:
  "unchanged canvas_size (ctx c)"
  "unchanged canvas_size (chose e)"
  "unchanged canvas_size (new_rng seed)"
  "unchanged canvas_size rng"
  "unchanged canvas_size (pick arr)"
  "unchanged canvas_size (divide x y)"
  by (simp_all add: unchanged_def run_prims canvas_size_def)

subsection \<open>Computations that run alike\<close>

lemma sim_return: "sim R (State_Monad.return x) (State_Monad.return x)"
  by (simp add: sim_def)

lemma sim_bind:
  "sim R m m' \<Longrightarrow> (\<And>x. sim R (g x) (g' x)) \<Longrightarrow>
   sim R (State_Monad.bind m g) (State_Monad.bind m' g')"
  unfolding sim_def by (simp add: split_beta)

lemma sim_if: "sim R m m' \<Longrightarrow> sim R n n' \<Longrightarrow> sim R (if c then m else n) (if c then m' else n')"
  by simp

lemma sim_iterate:
  "(\<And>i. sim R (body i) (body' i)) \<Longrightarrow> sim R (iterate k i body) (iterate k i body')"
  by (induction k arbitrary: i) (simp_all add: sim_return sim_bind)

lemma sim_for_loop:
  "(\<And>i. sim R (body i) (body' i)) \<Longrightarrow> sim R (for_loop n body) (for_loop n body')"
  by (simp add: for_loop_def sim_iterate)

lemma sim_ctx: "(full \<longrightarrow> c = c') \<Longrightarrow> sim (agree full k k' j j') (ctx c) (ctx c')"
  by (auto simp: sim_def agree_def run_prims)

lemma sim_prims:
  "sim (agree full k k' j j') (chose e) (chose e)"
  "sim (agree full k k' j j') (new_rng seed) (new_rng seed)"
  "sim (agree full k k' j j') rng rng"
  "sim (agree full k k' j j') (pick arr) (pick arr)"
  "sim (agree full k k' j j') (divide x y) (divide x y)"
  by (auto simp: sim_def agree_def run_prims)

lemmas sim_rules = sim_return sim_bind sim_if sim_for_loop sim_ctx sim_prims

section \<open>The helpers run alike\<close>

lemma sim_makePalette: "sim (agree full k k' j j') makePalette makePalette"
  unfolding makePalette_def by (intro sim_rules)

lemma sim_grain:
  "(full \<longrightarrow> w = w' \<and> h = h') \<Longrightarrow> sim (agree full k k' j j') (grain w h i) (grain w' h' i)"
  unfolding grain_def Let_def by (intro sim_rules) auto

lemma sim_drawBackground:
  "(full \<longrightarrow> w = w' \<and> h = h') \<Longrightarrow>
   sim (agree full k k' j j') (drawBackground w h p) (drawBackground w' h' p)"
  unfolding drawBackground_def by (intro sim_rules sim_grain) auto

lemma sim_strokeGlow:
  "(full \<longrightarrow> lw = lw') \<Longrightarrow>
   sim (agree full k k' j j') (strokeGlow c lw g b) (strokeGlow c lw' g b)"
  unfolding strokeGlow_def by (intro sim_rules) auto

lemma sim_fillGlow: "sim (agree full k k' j j') (fillGlow c g b) (fillGlow c g b)"
  unfolding fillGlow_def by (intro sim_rules) auto

lemma sim_drawPetal:
  "(full \<longrightarrow> r0 = r0' \<and> r1 = r1' \<and> width = width') \<Longrightarrow>
   sim (agree full k k' j j') (drawPetal r0 r1 width) (drawPetal r0' r1' width')"
  unfolding drawPetal_def Let_def by (intro sim_rules) auto

lemma sim_drawArcBand:
  "(full \<longrightarrow> r0 = r0' \<and> r1 = r1' \<and> a0 = a0' \<and> a1 = a1') \<Longrightarrow>
   sim (agree full k k' j j') (drawArcBand r0 r1 a0 a1) (drawArcBand r0' r1' a0' a1')"
  unfolding drawArcBand_def by (intro sim_rules) auto

lemma sim_drawDot:
  "(full \<longrightarrow> r = r' \<and> z = z') \<Longrightarrow>
   sim (agree full k k' j j') (drawDot r z) (drawDot r' z')"
  unfolding drawDot_def by (intro sim_rules) auto

lemma sim_ray:
  "(full \<longrightarrow> step = step' \<and> r0 = r0' \<and> r1 = r1') \<Longrightarrow>
   sim (agree full k k' j j') (ray step r0 r1 n ri) (ray step' r0' r1' n ri)"
  unfolding ray_def Let_def by (intro sim_rules) auto

lemma sim_dot:
  "(full \<longrightarrow> minDim = minDim' \<and> r0 = r0' \<and> r1 = r1' \<and> lw = lw') \<Longrightarrow>
   sim (agree full k k' j j') (dot inks minDim r0 r1 lw n di) (dot inks minDim' r0' r1' lw' n di)"
  unfolding dot_def Let_def
  by (intro sim_rules sim_drawDot sim_fillGlow sim_strokeGlow) auto

lemma sim_segment:
  "(full \<longrightarrow> R = R' \<and> minDim = minDim' \<and> step = step' \<and> r0 = r0' \<and> r1 = r1' \<and> lw = lw') \<Longrightarrow>
   sim (agree full k k' j j')
     (segment p inks R minDim step li r0 r1 stroke fill kind lw si)
     (segment p inks R' minDim' step' li r0' r1' stroke fill kind lw' si)"
  unfolding segment_def Let_def
  by (intro sim_rules sim_drawPetal sim_drawArcBand sim_fillGlow sim_strokeGlow sim_ray sim_dot)
     auto

lemma sim_layer:
  "(full \<longrightarrow> R = R' \<and> minDim = minDim' \<and> step = step') \<Longrightarrow>
   sim (agree full k k' j j')
     (layer p inks R minDim step segments layers li)
     (layer p inks R' minDim' step' segments layers li)"
  unfolding layer_def Let_def by (intro sim_rules sim_segment) auto

lemma sim_rosette_petal:
  "(full \<longrightarrow> R = R' \<and> minDim = minDim' \<and> cStep = cStep') \<Longrightarrow>
   sim (agree full k k' j j') (rosette_petal p R minDim cStep i) (rosette_petal p R' minDim' cStep' i)"
  unfolding rosette_petal_def Let_def
  by (intro sim_rules sim_drawPetal sim_fillGlow sim_strokeGlow) auto

lemma sim_guide_ring:
  "(full \<longrightarrow> R = R' \<and> minDim = minDim') \<Longrightarrow>
   sim (agree full k k' j j') (guide_ring p R minDim) (guide_ring p R' minDim')"
  unfolding guide_ring_def by (intro sim_rules sim_strokeGlow) auto

lemma sim_center_dot:
  "(full \<longrightarrow> R = R') \<Longrightarrow> sim (agree full k k' j j') (center_dot p R) (center_dot p R')"
  unfolding center_dot_def by (intro sim_rules sim_fillGlow) auto

section \<open>What the helpers leave alone\<close>

lemma clamp_bounds: "lo \<le> hi \<Longrightarrow> lo \<le> clamp n lo hi \<and> clamp n lo hi \<le> hi"
  by (simp add: clamp_def)

lemma or_num_nonzero: "or_num a 1 \<noteq> 0"
  by (simp add: or_num_def)

lemma divz_makePalette: "unchanged divz makePalette"
  unfolding makePalette_def by (intro unchanged_rules divz_prims)

lemma divz_grain: "unchanged divz (grain w h i)"
  unfolding grain_def Let_def by (intro unchanged_rules divz_prims)

lemma divz_drawBackground: "unchanged divz (drawBackground w h p)"
  unfolding drawBackground_def by (intro unchanged_rules divz_prims divz_grain)

lemma divz_strokeGlow: "unchanged divz (strokeGlow c lw g b)"
  unfolding strokeGlow_def by (intro unchanged_rules divz_prims)

lemma divz_fillGlow: "unchanged divz (fillGlow c g b)"
  unfolding fillGlow_def by (intro unchanged_rules divz_prims)

lemma divz_drawPetal: "unchanged divz (drawPetal r0 r1 width)"
  unfolding drawPetal_def Let_def by (intro unchanged_rules divz_prims)

lemma divz_drawArcBand: "unchanged divz (drawArcBand r0 r1 a0 a1)"
  unfolding drawArcBand_def by (intro unchanged_rules divz_prims)

lemma divz_drawDot: "unchanged divz (drawDot r z)"
  unfolding drawDot_def by (intro unchanged_rules divz_prims)

lemma divz_ray: "unchanged divz (ray step r0 r1 n ri)"
  unfolding ray_def Let_def
  by (intro unchanged_rules divz_prims) (simp add: or_num_nonzero)

lemma divz_dot: "unchanged divz (dot inks minDim r0 r1 lw n di)"
  unfolding dot_def Let_def
  by (intro unchanged_rules divz_prims divz_drawDot divz_fillGlow divz_strokeGlow)
     (simp add: or_num_nonzero)

lemma divz_segment: "unchanged divz (segment p inks R minDim step li r0 r1 stroke fill kind lw si)"
  unfolding segment_def Let_def
  by (intro unchanged_rules divz_prims divz_drawPetal divz_drawArcBand divz_fillGlow
      divz_strokeGlow divz_ray divz_dot)

lemma divz_layer:
  "layers \<noteq> 1 \<Longrightarrow> unchanged divz (layer p inks R minDim step segments layers li)"
  unfolding layer_def Let_def
  by (intro unchanged_rules divz_prims divz_segment) simp

lemma divz_rosette_petal: "unchanged divz (rosette_petal p R minDim cStep i)"
  unfolding rosette_petal_def Let_def
  by (intro unchanged_rules divz_prims divz_drawPetal divz_fillGlow divz_strokeGlow)

lemma divz_guide_ring: "unchanged divz (guide_ring p R minDim)"
  unfolding guide_ring_def by (intro unchanged_rules divz_prims divz_strokeGlow)

lemma divz_center_dot: "unchanged divz (center_dot p R)"
  unfolding center_dot_def by (intro unchanged_rules divz_prims divz_fillGlow)

lemma divz_signature: "unchanged divz (signature word w h)"
  unfolding signature_def by (intro unchanged_rules divz_prims)

lemma layers_not_one: "clamp (n :: int) 7 14 \<noteq> 1"
  using clamp_bounds [of 7 14 n] by simp

lemma segments_nonzero: "real_of_int (clamp (n :: int) 8 26) \<noteq> 0"
  using clamp_bounds [of 8 26 n] by simp

lemma centerPetals_nonzero: "real_of_int (clamp (n :: int) 10 30) \<noteq> 0"
  using clamp_bounds [of 10 30 n] by simp

lemma divz_render: "unchanged divz (render w h word seed options)"
  unfolding render_def paint_def Let_def
  by (intro unchanged_rules divz_prims divz_makePalette divz_drawBackground divz_guide_ring
      divz_layer divz_rosette_petal divz_center_dot divz_signature layers_not_one
      segments_nonzero centerPetals_nonzero)

lemma selected_makePalette: "unchanged selected makePalette"
  unfolding makePalette_def by (intro unchanged_rules selected_prims)

lemma selected_grain: "unchanged selected (grain w h i)"
  unfolding grain_def Let_def by (intro unchanged_rules selected_prims)

lemma selected_drawBackground: "unchanged selected (drawBackground w h p)"
  unfolding drawBackground_def by (intro unchanged_rules selected_prims selected_grain)

lemma selected_strokeGlow: "unchanged selected (strokeGlow c lw g b)"
  unfolding strokeGlow_def by (intro unchanged_rules selected_prims)

lemma selected_fillGlow: "unchanged selected (fillGlow c g b)"
  unfolding fillGlow_def by (intro unchanged_rules selected_prims)

lemma selected_drawPetal: "unchanged selected (drawPetal r0 r1 width)"
  unfolding drawPetal_def Let_def by (intro unchanged_rules selected_prims)

lemma selected_drawArcBand: "unchanged selected (drawArcBand r0 r1 a0 a1)"
  unfolding drawArcBand_def by (intro unchanged_rules selected_prims)

lemma selected_drawDot: "unchanged selected (drawDot r z)"
  unfolding drawDot_def by (intro unchanged_rules selected_prims)

lemma selected_ray: "unchanged selected (ray step r0 r1 n ri)"
  unfolding ray_def Let_def by (intro unchanged_rules selected_prims)

lemma selected_dot: "unchanged selected (dot inks minDim r0 r1 lw n di)"
  unfolding dot_def Let_def
  by (intro unchanged_rules selected_prims selected_drawDot selected_fillGlow
      selected_strokeGlow)

lemma selected_segment:
  "unchanged selected (segment p inks R minDim step li r0 r1 stroke fill kind lw si)"
  unfolding segment_def Let_def
  by (intro unchanged_rules selected_prims selected_drawPetal selected_drawArcBand
      selected_fillGlow selected_strokeGlow selected_ray selected_dot)

lemma selected_rosette_petal: "unchanged selected (rosette_petal p R minDim cStep i)"
  unfolding rosette_petal_def Let_def
  by (intro unchanged_rules selected_prims selected_drawPetal selected_fillGlow
      selected_strokeGlow)

lemma selected_guide_ring: "unchanged selected (guide_ring p R minDim)"
  unfolding guide_ring_def by (intro unchanged_rules selected_prims selected_strokeGlow)

lemma selected_center_dot: "unchanged selected (center_dot p R)"
  unfolding center_dot_def by (intro unchanged_rules selected_prims selected_fillGlow)

lemma selected_signature: "unchanged selected (signature word w h)"
  unfolding signature_def by (intro unchanged_rules selected_prims)

lemma size_makePalette: "unchanged canvas_size makePalette"
  unfolding makePalette_def by (intro unchanged_rules size_prims)

lemma size_grain: "unchanged canvas_size (grain w h i)"
  unfolding grain_def Let_def by (intro unchanged_rules size_prims)

lemma size_drawBackground: "unchanged canvas_size (drawBackground w h p)"
  unfolding drawBackground_def by (intro unchanged_rules size_prims size_grain)

lemma size_strokeGlow: "unchanged canvas_size (strokeGlow c lw g b)"
  unfolding strokeGlow_def by (intro unchanged_rules size_prims)

lemma size_fillGlow: "unchanged canvas_size (fillGlow c g b)"
  unfolding fillGlow_def by (intro unchanged_rules size_prims)

lemma size_drawPetal: "unchanged canvas_size (drawPetal r0 r1 width)"
  unfolding drawPetal_def Let_def by (intro unchanged_rules size_prims)

lemma size_drawArcBand: "unchanged canvas_size (drawArcBand r0 r1 a0 a1)"
  unfolding drawArcBand_def by (intro unchanged_rules size_prims)

lemma size_drawDot: "unchanged canvas_size (drawDot r z)"
  unfolding drawDot_def by (intro unchanged_rules size_prims)

lemma size_ray: "unchanged canvas_size (ray step r0 r1 n ri)"
  unfolding ray_def Let_def by (intro unchanged_rules size_prims)

lemma size_dot: "unchanged canvas_size (dot inks minDim r0 r1 lw n di)"
  unfolding dot_def Let_def
  by (intro unchanged_rules size_prims size_drawDot size_fillGlow
      size_strokeGlow)

lemma size_segment:
  "unchanged canvas_size (segment p inks R minDim step li r0 r1 stroke fill kind lw si)"
  unfolding segment_def Let_def
  by (intro unchanged_rules size_prims size_drawPetal size_drawArcBand
      size_fillGlow size_strokeGlow size_ray size_dot)

lemma size_rosette_petal: "unchanged canvas_size (rosette_petal p R minDim cStep i)"
  unfolding rosette_petal_def Let_def
  by (intro unchanged_rules size_prims size_drawPetal size_fillGlow
      size_strokeGlow)

lemma size_guide_ring: "unchanged canvas_size (guide_ring p R minDim)"
  unfolding guide_ring_def by (intro unchanged_rules size_prims size_strokeGlow)

lemma size_center_dot: "unchanged canvas_size (center_dot p R)"
  unfolding center_dot_def by (intro unchanged_rules size_prims size_fillGlow)

lemma size_signature: "unchanged canvas_size (signature word w h)"
  unfolding signature_def by (intro unchanged_rules size_prims)

lemma size_layer: "unchanged canvas_size (layer p inks R minDim step segments layers li)"
  unfolding layer_def Let_def by (intro unchanged_rules size_prims size_segment)

lemma size_render: "unchanged canvas_size (render w h word seed options)"
  unfolding render_def paint_def Let_def
  by (intro unchanged_rules size_prims size_makePalette size_drawBackground size_guide_ring
      size_layer size_rosette_petal size_center_dot size_signature)

lemma run_drawMandala:
  "run_state (drawMandala word seed options) s =
   run_state (render (real (canvas_width s)) (real (canvas_height s)) word seed options) s"
  by (simp add: drawMandala_def)

section \<open>Following the choices and the generator through a computation\<close>

lemma skip_0: "skip 0 a = a"
  by (simp add: skip_def)

lemma skip_Suc: "skip (Suc n) a = snd (mulberry32_call (skip n a))"
  by (simp add: skip_def)

lemma skip_add: "skip n (skip m a) = skip (m + n) a"
  by (simp add: skip_def add.commute [of m n] funpow_add)

lemma skip_1: "snd (mulberry32_call a) = skip 1 a"
  by (simp add: skip_def)

lemma draw_at_0: "fst (mulberry32_call a) = draw_at 0 a"
  by (simp add: draw_at_def skip_0)

lemma draw_at_skip: "draw_at n (skip m a) = draw_at (m + n) a"
  by (simp add: draw_at_def skip_add)

lemma draw_at_range: "0 \<le> draw_at n a \<and> draw_at n a < 1"
  unfolding draw_at_def by (rule mulberry32_call_range)

lemma run_makePalette:
  "run_state makePalette s =
     (palette_of (draw_at 0 (rng_a s)) (draw_at 1 (rng_a s)) (draw_at 2 (rng_a s))
        (draw_at 3 (rng_a s)),
      s\<lparr>rng_a := skip 4 (rng_a s)\<rparr>)"
  by (simp add: makePalette_def run_rng split_beta skip_1 draw_at_0 skip_add draw_at_skip
      eval_nat_numeral)

lemma rng_a_grain: "rng_a (snd (run_state (grain w h i) s)) = skip 3 (rng_a s)"
  by (simp add: grain_def Let_def run_prims split_beta skip_1 skip_add eval_nat_numeral)

lemma rng_a_iterate_grain:
  "rng_a (snd (run_state (iterate k i (grain w h)) s)) = skip (3 * k) (rng_a s)"
proof (induction k arbitrary: i s)
  case 0
  show ?case by (simp add: skip_0)
next
  case (Suc k)
  have "3 * Suc k = 3 + 3 * k" by simp
  then show ?case
    by (simp add: split_beta Suc.IH rng_a_grain skip_add del: mult_Suc_right)
qed

lemma rng_a_drawBackground:
  "rng_a (snd (run_state (drawBackground w h p) s)) = skip 7200 (rng_a s)"
  by (simp add: drawBackground_def for_loop_def run_prims split_beta rng_a_iterate_grain)

lemma rng_a_prims:
  "unchanged rng_a (ctx c)"
  "unchanged rng_a (chose e)"
  "unchanged rng_a (divide x y)"
  by (simp_all add: unchanged_def run_prims)

lemma rng_a_strokeGlow: "unchanged rng_a (strokeGlow c lw g b)"
  unfolding strokeGlow_def by (intro unchanged_rules rng_a_prims)

lemma rng_a_fillGlow: "unchanged rng_a (fillGlow c g b)"
  unfolding fillGlow_def by (intro unchanged_rules rng_a_prims)

lemma rng_a_guide_ring: "unchanged rng_a (guide_ring p R minDim)"
  unfolding guide_ring_def by (intro unchanged_rules rng_a_prims rng_a_strokeGlow)

lemma rng_a_center_dot: "unchanged rng_a (center_dot p R)"
  unfolding center_dot_def by (intro unchanged_rules rng_a_prims rng_a_fillGlow)

lemma post_ctx:
  "post (f ()) (tracked pre xs a) Q \<Longrightarrow> post (State_Monad.bind (ctx c) f) (tracked pre xs a) Q"
  by (simp add: post_def tracked_def run_prims)

lemma post_chose:
  "post (f ()) (tracked pre (xs @ [e]) a) Q \<Longrightarrow>
   post (State_Monad.bind (chose e) f) (tracked pre xs a) Q"
  by (simp add: post_def tracked_def run_prims)

lemma post_new_rng:
  "post (f ()) (tracked pre xs seed) Q \<Longrightarrow>
   post (State_Monad.bind (new_rng seed) f) (tracked pre xs a) Q"
  by (simp add: post_def tracked_def run_prims)

lemma post_rng:
  "post (f (draw_at 0 a)) (tracked pre xs (skip 1 a)) Q \<Longrightarrow>
   post (State_Monad.bind rng f) (tracked pre xs a) Q"
  by (simp add: post_def tracked_def run_prims skip_1 draw_at_0)

lemma post_pick:
  "post (f (element arr \<lfloor>draw_at 0 a * real (length arr)\<rfloor>)) (tracked pre xs (skip 1 a)) Q \<Longrightarrow>
   post (State_Monad.bind (pick arr) f) (tracked pre xs a) Q"
  by (simp add: post_def tracked_def run_prims skip_1 draw_at_0)

lemma post_divide:
  "post (f (x / y)) (tracked pre xs a) Q \<Longrightarrow>
   post (State_Monad.bind (divide x y) f) (tracked pre xs a) Q"
  by (simp add: post_def tracked_def run_prims)

lemma post_makePalette:
  "post (f (palette_of (draw_at 0 a) (draw_at 1 a) (draw_at 2 a) (draw_at 3 a)))
     (tracked pre xs (skip 4 a)) Q \<Longrightarrow>
   post (State_Monad.bind makePalette f) (tracked pre xs a) Q"
  by (simp add: post_def tracked_def run_makePalette)

lemma post_drawBackground:
  "post (f ()) (tracked pre xs (skip 7200 a)) Q \<Longrightarrow>
   post (State_Monad.bind (drawBackground w h p) f) (tracked pre xs a) Q"
  using selected_drawBackground [of w h p]
  by (simp add: post_def tracked_def unchanged_def split_beta rng_a_drawBackground)

lemma post_quiet:
  "unchanged selected m \<Longrightarrow> unchanged rng_a m \<Longrightarrow> post (f ()) (tracked pre xs a) Q \<Longrightarrow>
   post (State_Monad.bind m f) (tracked pre xs a) Q"
  by (simp add: post_def tracked_def unchanged_def split_beta)

lemma post_loop_quiet:
  "(\<And>i. unchanged selected (body i)) \<Longrightarrow> (\<And>a'. post (f ()) (tracked pre xs a') Q) \<Longrightarrow>
   post (State_Monad.bind (for_loop n body) f) (tracked pre xs a) Q"
  using unchanged_for_loop [of selected body n]
  by (simp add: post_def tracked_def unchanged_def split_beta)

lemma post_last:
  "unchanged selected m \<Longrightarrow> (\<And>t. selected t = pre @ xs \<Longrightarrow> Q t) \<Longrightarrow>
   post m (tracked pre xs a) Q"
  by (simp add: post_def tracked_def unchanged_def)

lemmas post_rules =
  post_ctx post_chose post_new_rng post_rng post_pick post_divide post_makePalette
  post_drawBackground

lemma element_in_range:
  assumes "0 \<le> d" and "d < 1" and "arr \<noteq> []"
  shows "\<exists>x. element arr \<lfloor>d * real (length arr)\<rfloor> = Some x"
proof -
  have "d * real (length arr) < real (length arr)"
    using assms by simp
  then have "\<lfloor>d * real (length arr)\<rfloor> < int (length arr)"
    by (simp add: floor_less_iff)
  moreover have "0 \<le> \<lfloor>d * real (length arr)\<rfloor>"
    using assms by simp
  ultimately show ?thesis
    by (simp add: element_def nat_less_iff)
qed

lemma layer_choice:
  "post (layer p inks R minDim step segments layers li) (tracked pre xs a)
     (\<lambda>t. \<exists>m. selected t = pre @ xs @ [Kind li (Some m)])"
proof -
  obtain m where m: "element [Petal, Band, Rays, Dots, Triangles]
      \<lfloor>draw_at 0 (skip 1 (skip 1 (skip 1 a))) * real (length [Petal, Band, Rays, Dots, Triangles])\<rfloor>
      = Some m"
    using element_in_range [OF _ _ , of "draw_at 0 (skip 1 (skip 1 (skip 1 a)))"
        "[Petal, Band, Rays, Dots, Triangles]"] draw_at_range
    by auto
  show ?thesis
    unfolding layer_def Let_def
    apply (intro post_rules)
    apply (rule post_last)
     apply (intro unchanged_for_loop selected_segment)
    using m apply simp
    done
qed

lemma layers_choices:
  "\<exists>ks. length ks = k \<and> kinds_from i ks \<and>
     selected (snd (run_state (iterate k i (layer p inks R minDim step segments layers)) s))
       = selected s @ ks"
proof (induction k arbitrary: i s)
  case 0
  show ?case by simp
next
  case (Suc k)
  let ?s1 = "snd (run_state (layer p inks R minDim step segments layers i) s)"
  from layer_choice [of p inks R minDim step segments layers i "selected s" "[]" "rng_a s"]
  obtain m where m: "selected ?s1 = selected s @ [Kind i (Some m)]"
    by (auto simp: post_def tracked_def)
  from Suc.IH [of "i + 1" ?s1] obtain ks where
    ks: "length ks = k" "kinds_from (i + 1) ks"
      "selected (snd (run_state (iterate k (i + 1) (layer p inks R minDim step segments layers)) ?s1))
        = selected ?s1 @ ks"
    by blast
  have "length (Kind i (Some m) # ks) = Suc k \<and> kinds_from i (Kind i (Some m) # ks)"
    using ks by simp
  moreover have
    "selected (snd (run_state (iterate (Suc k) i (layer p inks R minDim step segments layers)) s))
       = selected s @ Kind i (Some m) # ks"
    using ks m by (simp add: split_beta)
  ultimately show ?case by blast
qed

lemma post_layers:
  assumes "\<And>ks a'. length ks = nat n \<Longrightarrow> kinds_from 0 ks \<Longrightarrow>
     post (f ()) (tracked pre (xs @ ks) a') Q"
  shows "post (State_Monad.bind (for_loop n (layer p inks R minDim step segments layers)) f)
     (tracked pre xs a) Q"
  unfolding post_def
proof (intro allI impI)
  fix s assume s: "tracked pre xs a s"
  let ?s1 = "snd (run_state (for_loop n (layer p inks R minDim step segments layers)) s)"
  from layers_choices [of "nat n" 0 p inks R minDim step segments layers s]
  obtain ks where ks: "length ks = nat n" "kinds_from 0 ks" "selected ?s1 = selected s @ ks"
    by (auto simp: for_loop_def)
  from s ks have "tracked pre (xs @ ks) (rng_a ?s1) ?s1"
    by (simp add: tracked_def)
  with assms [OF ks(1,2), of "rng_a ?s1"]
  have "Q (snd (run_state (f ()) ?s1))"
    by (simp add: post_def)
  then show "Q (snd (run_state (State_Monad.bind
      (for_loop n (layer p inks R minDim step segments layers)) f) s))"
    by (simp add: split_beta)
qed

lemma render_choices:
  "post (render w h word seed options) (tracked pre [] a)
     (\<lambda>t. \<exists>(d :: real) ks.
        selected t = pre @ Segments (clamp \<lfloor>8 + draw_at 7205 seed * 18\<rfloor> 8 26)
          # Layers (clamp \<lfloor>7 + draw_at 7206 seed * 7\<rfloor> 7 14)
          # ks @ [CenterPetals (clamp \<lfloor>10 + d * 18\<rfloor> 10 30)]
        \<and> length ks = nat (clamp \<lfloor>7 + draw_at 7206 seed * 7\<rfloor> 7 14)
        \<and> kinds_from 0 ks \<and> 0 \<le> d \<and> d < 1)"
  unfolding render_def paint_def Let_def
  apply (intro post_rules post_layers
      post_quiet [OF selected_guide_ring rng_a_guide_ring]
      post_quiet [OF selected_center_dot rng_a_center_dot]
      post_loop_quiet [OF selected_rosette_petal])
  apply (rule post_last)
   apply (intro unchanged_rules selected_signature)
  apply (simp add: skip_add draw_at_skip)
  using draw_at_range apply blast
  done

lemma drawMandala_choices:
  "\<exists>(d :: real) ks.
     new_choices (drawMandala word seed options) s =
       Segments (clamp \<lfloor>8 + draw_at 7205 seed * 18\<rfloor> 8 26)
       # Layers (clamp \<lfloor>7 + draw_at 7206 seed * 7\<rfloor> 7 14)
       # ks @ [CenterPetals (clamp \<lfloor>10 + d * 18\<rfloor> 10 30)]
     \<and> length ks = nat (clamp \<lfloor>7 + draw_at 7206 seed * 7\<rfloor> 7 14)
     \<and> kinds_from 0 ks \<and> 0 \<le> d \<and> d < 1"
proof -
  have "tracked (selected s) [] (rng_a s) s"
    by (simp add: tracked_def)
  with render_choices [of "real (canvas_width s)" "real (canvas_height s)" word seed options
      "selected s" "rng_a s"]
  obtain d :: real and ks where
    "selected (snd (run_state (drawMandala word seed options) s)) =
       selected s @ Segments (clamp \<lfloor>8 + draw_at 7205 seed * 18\<rfloor> 8 26)
          # Layers (clamp \<lfloor>7 + draw_at 7206 seed * 7\<rfloor> 7 14)
          # ks @ [CenterPetals (clamp \<lfloor>10 + d * 18\<rfloor> 10 30)]"
    "length ks = nat (clamp \<lfloor>7 + draw_at 7206 seed * 7\<rfloor> 7 14)"
    "kinds_from 0 ks" "0 \<le> d" "d < 1"
    unfolding post_def run_drawMandala by blast
  then show ?thesis
    unfolding new_choices_def by (intro exI [of _ d] exI [of _ ks]) simp
qed

lemma floor_draw_bounds:
  assumes "0 \<le> (d :: real)" and "d < 1" and "0 \<le> c"
  shows "b \<le> \<lfloor>real_of_int b + d * real_of_int c\<rfloor> \<and> \<lfloor>real_of_int b + d * real_of_int c\<rfloor> \<le> b + c - 1 \<or> c = 0"
proof (cases "c = 0")
  case True
  then show ?thesis by simp
next
  case False
  with assms have c: "0 < real_of_int c" by simp
  have "0 \<le> d * real_of_int c"
    using assms by simp
  then have lo: "b \<le> \<lfloor>real_of_int b + d * real_of_int c\<rfloor>"
    by (simp add: le_floor_iff)
  have "d * real_of_int c < real_of_int c"
    using assms c by simp
  then have "real_of_int b + d * real_of_int c < real_of_int (b + c)"
    by simp
  then have "\<lfloor>real_of_int b + d * real_of_int c\<rfloor> < b + c"
    by (simp only: floor_less_iff)
  with lo show ?thesis by simp
qed

lemma segments_range:
  "0 \<le> (d :: real) \<Longrightarrow> d < 1 \<Longrightarrow>
   8 \<le> clamp \<lfloor>8 + d * 18\<rfloor> 8 26 \<and> clamp \<lfloor>8 + d * 18\<rfloor> 8 26 \<le> 25"
  using floor_draw_bounds [of d 18 8] by (simp add: clamp_def)

lemma layers_range:
  "0 \<le> (d :: real) \<Longrightarrow> d < 1 \<Longrightarrow>
   7 \<le> clamp \<lfloor>7 + d * 7\<rfloor> 7 14 \<and> clamp \<lfloor>7 + d * 7\<rfloor> 7 14 \<le> 13"
  using floor_draw_bounds [of d 7 7] by (simp add: clamp_def)

lemma centerPetals_range:
  "0 \<le> (d :: real) \<Longrightarrow> d < 1 \<Longrightarrow>
   10 \<le> clamp \<lfloor>10 + d * 18\<rfloor> 10 30 \<and> clamp \<lfloor>10 + d * 18\<rfloor> 10 30 \<le> 27"
  using floor_draw_bounds [of d 18 10] by (simp add: clamp_def)

section \<open>The structural computations are exact in double precision\<close>

lemma draw_numerator:
  "\<exists>k :: int. 0 \<le> k \<and> k < 4294967296 \<and> draw_at n a = real_of_int k / 4294967296"
proof -
  obtain u :: int32 where
    u: "fst (mulberry32_call (skip n a)) = real_of_int (uint u) / 4294967296"
    using mulberry32_call_form by blast
  have "0 \<le> uint u" and "uint u < 4294967296"
    using uint_bounded [of u] by simp_all
  with u show ?thesis
    unfolding draw_at_def by blast
qed

lemma scaled_draw_exact:
  assumes "0 \<le> c" and "c \<le> 360" and "0 \<le> b" and "b \<le> 360"
  shows "exact32 (draw_at n a * real_of_int c)
    \<and> exact32 (real_of_int b + draw_at n a * real_of_int c)"
proof -
  obtain k :: int where k: "0 \<le> k" "k < 4294967296"
    and d: "draw_at n a = real_of_int k / 4294967296"
    using draw_numerator by blast
  have "k * c \<le> 4294967296 * 360"
    using k assms by (intro mult_mono) simp_all
  moreover have "0 \<le> k * c"
    using k assms by simp
  ultimately have kc: "0 \<le> k * c" "k * c \<le> 4294967296 * 360"
    by simp_all
  have "draw_at n a * real_of_int c = real_of_int (k * c) / 4294967296"
    by (simp add: d)
  moreover have "\<bar>k * c\<bar> < 2 ^ 53"
    using kc by simp
  ultimately have one: "exact32 (draw_at n a * real_of_int c)"
    unfolding exact32_def by blast
  have "real_of_int b + draw_at n a * real_of_int c
      = real_of_int (b * 4294967296 + k * c) / 4294967296"
    by (simp add: d)
  moreover have "\<bar>b * 4294967296 + k * c\<bar> < 2 ^ 53"
    using kc assms by simp
  ultimately have "exact32 (real_of_int b + draw_at n a * real_of_int c)"
    unfolding exact32_def by blast
  with one show ?thesis by simp
qed

lemma structural_values_exact:
  "exact32 (draw_at n a * 360)
   \<and> exact32 (8 + draw_at n a * 18) \<and> exact32 (7 + draw_at n a * 7)
   \<and> exact32 (10 + draw_at n a * 18)
   \<and> exact32 (2 + draw_at n a * 6) \<and> exact32 (2 + draw_at n a * 5)
   \<and> exact32 (draw_at n a * 6) \<and> exact32 (draw_at n a * 5)"
  using scaled_draw_exact [of 360 0 n a] scaled_draw_exact [of 18 8 n a]
    scaled_draw_exact [of 7 7 n a] scaled_draw_exact [of 18 10 n a]
    scaled_draw_exact [of 6 2 n a] scaled_draw_exact [of 5 2 n a]
  by simp

lemma sim_signature:
  "(full \<longrightarrow> w = w' \<and> h = h') \<Longrightarrow>
   sim (agree full k k' j j') (signature word w h) (signature word w' h')"
  unfolding signature_def by (intro sim_rules) auto

lemma sim_render:
  "(full \<longrightarrow> w = w' \<and> h = h') \<Longrightarrow>
   sim (agree full k k' j j') (render w h word seed options) (render w' h' word seed options)"
  unfolding render_def paint_def Let_def
  by (intro sim_rules sim_makePalette sim_drawBackground sim_guide_ring sim_layer
      sim_rosette_petal sim_center_dot sim_signature) auto

lemma render_fresh_rng:
  "run_state (render w h word seed options) (s\<lparr>rng_a := seed\<rparr>) =
   run_state (render w h word seed options) s"
  unfolding render_def by (simp add: run_new_rng)

lemma agree_start:
  "agree full (length (selected s)) (length (selected s')) (length (issued s)) (length (issued s'))
     (s\<lparr>rng_a := a\<rparr>) (s'\<lparr>rng_a := a\<rparr>)"
  by (simp add: agree_def)

lemma render_agree:
  assumes "full \<longrightarrow> w = w' \<and> h = h'"
  shows "agree full (length (selected s)) (length (selected s')) (length (issued s))
     (length (issued s'))
     (snd (run_state (render w h word seed options) s))
     (snd (run_state (render w' h' word seed options) s'))"
proof -
  from sim_render [OF assms] agree_start [of full s s' seed]
  have "agree full (length (selected s)) (length (selected s')) (length (issued s))
     (length (issued s'))
     (snd (run_state (render w h word seed options) (s\<lparr>rng_a := seed\<rparr>)))
     (snd (run_state (render w' h' word seed options) (s'\<lparr>rng_a := seed\<rparr>)))"
    unfolding sim_def by blast
  then show ?thesis by (simp only: render_fresh_rng)
qed

section \<open>Determinism of a render\<close>

text \<open>
  Claim C1. Two runs of the pipeline (\<open>computeSeed\<close>, then \<open>drawMandala\<close>) on the same
  word, with the same options, on canvases of the same width and height, compute the
  same seed and issue the same sequence of drawing calls, whatever else differs between
  the two states they start in: what was drawn before, the state an earlier generator
  was left in, the choices recorded before. The generator also ends in the same state.
  In particular a second run, started in the state the first one leaves, issues the calls
  of the first again. Rasterising the calls is the browser's part and is outside this
  model.
\<close>

theorem pipeline_deterministic:
  assumes "canvas_width s = canvas_width s'" and "canvas_height s = canvas_height s'"
  shows "new_calls (drawMandala word (computeSeed U word) options) s =
         new_calls (drawMandala word (computeSeed U word) options) s'
    \<and> rng_a (snd (run_state (drawMandala word (computeSeed U word) options) s)) =
      rng_a (snd (run_state (drawMandala word (computeSeed U word) options) s'))
    \<and> new_calls (drawMandala word (computeSeed U word) options)
        (snd (run_state (drawMandala word (computeSeed U word) options) s)) =
      new_calls (drawMandala word (computeSeed U word) options) s"
proof -
  let ?m = "drawMandala word (computeSeed U word) options"
  have same: "new_calls ?m t = new_calls ?m t'
      \<and> rng_a (snd (run_state ?m t)) = rng_a (snd (run_state ?m t'))"
    if "canvas_size t = canvas_size t'" for t t'
  proof -
    from that have "True \<longrightarrow> real (canvas_width t) = real (canvas_width t')
        \<and> real (canvas_height t) = real (canvas_height t')"
      by (simp add: canvas_size_def)
    from render_agree [OF this, of t t' word "computeSeed U word" options]
    show ?thesis
      by (simp add: agree_def new_calls_def run_drawMandala)
  qed
  have "canvas_size (snd (run_state ?m s)) = canvas_size s"
    using size_render [of "real (canvas_width s)" "real (canvas_height s)" word
        "computeSeed U word" options]
    by (simp add: unchanged_def run_drawMandala)
  from same [OF this] same [of s s'] assms show ?thesis
    by (simp add: canvas_size_def)
qed

theorem pipeline_deterministic_witness:
  "canvas_width (blank 400 400) = canvas_width (used 400 400)
   \<and> canvas_height (blank 400 400) = canvas_height (used 400 400)
   \<and> new_calls (drawMandala (js ''lotus'') (computeSeed (\<lambda>s. s) (js ''lotus'')) (Some True))
       (blank 400 400) =
     new_calls (drawMandala (js ''lotus'') (computeSeed (\<lambda>s. s) (js ''lotus'')) (Some True))
       (used 400 400)"
proof -
  have a: "canvas_width (blank 400 400) = canvas_width (used 400 400)"
    and b: "canvas_height (blank 400 400) = canvas_height (used 400 400)"
    by (simp_all add: blank_def used_def)
  from pipeline_deterministic [OF a b] a b show ?thesis by blast
qed

section \<open>Structure does not depend on the size of the canvas\<close>

text \<open>
  Claim C8. For every word (every seed), renders on canvases of any two sizes record the
  same choices of \<open>segments\<close>, \<open>layers\<close>, the \<open>kind\<close> of every layer and \<open>centerPetals\<close>,
  and leave the generator in the same state: the draws that precede each choice do not
  depend on the width or the height.
\<close>

theorem structure_independent_of_size:
  "new_choices (drawMandala word seed options) s =
   new_choices (drawMandala word seed options) s'
   \<and> rng_a (snd (run_state (drawMandala word seed options) s)) =
     rng_a (snd (run_state (drawMandala word seed options) s'))"
proof -
  have "False \<longrightarrow> real (canvas_width s) = real (canvas_width s')
      \<and> real (canvas_height s) = real (canvas_height s')"
    by simp
  from render_agree [OF this, of s s' word seed options]
  show ?thesis
    by (simp add: agree_def new_choices_def run_drawMandala)
qed

theorem structure_independent_of_size_witness:
  "new_choices (drawMandala (js ''lotus'') (computeSeed (\<lambda>s. s) (js ''lotus'')) (Some True))
     (blank 400 400) =
   new_choices (drawMandala (js ''lotus'') (computeSeed (\<lambda>s. s) (js ''lotus'')) (Some True))
     (blank 800 800)"
  using structure_independent_of_size [of "js ''lotus''" "computeSeed (\<lambda>s. s) (js ''lotus'')"
      "Some True" "blank 400 400" "blank 800 800"]
  by blast

section \<open>No division by zero\<close>

text \<open>
  Claim C7. No division of a render has a zero divisor: the flag that a zero divisor
  would raise is, after \<open>drawMandala\<close>, what it was before, for every word, seed, option
  and canvas. The computed divisors are \<open>segments\<close> (at least 8), \<open>layers - 1\<close> (at least
  6), \<open>rayCount - 1 || 1\<close>, \<open>dotCount - 1 || 1\<close> and \<open>centerPetals\<close> (at least 10).
\<close>

theorem no_division_by_zero:
  "divz (snd (run_state (drawMandala word seed options) s)) = divz s"
  using divz_render [of "real (canvas_width s)" "real (canvas_height s)" word seed options]
  by (simp add: unchanged_def run_drawMandala)

text \<open>The flag is live: a zero divisor raises it.\<close>

lemma divide_by_zero_raises: "divz (snd (run_state (divide x 0) s))"
  by (simp add: run_divide)

theorem no_division_by_zero_witness:
  "\<not> divz (snd (run_state
      (drawMandala (js ''lotus'') (computeSeed (\<lambda>s. s) (js ''lotus'')) (Some True))
      (blank 400 400)))"
  using no_division_by_zero [of "js ''lotus''" "computeSeed (\<lambda>s. s) (js ''lotus'')" "Some True"
      "blank 400 400"]
  by (simp add: blank_def)

section \<open>The palette\<close>

lemma to_double_small: "\<bar>x\<bar> \<le> 2 ^ 53 \<Longrightarrow> to_double x = x"
  by (simp add: to_double_def)

lemma skip_small:
  "0 \<le> a \<Longrightarrow> a + int n * 1831565813 \<le> 2 ^ 53 \<Longrightarrow> skip n a = a + int n * 1831565813"
proof (induction n)
  case 0
  show ?case by (simp add: skip_0)
next
  case (Suc n)
  then have "skip n a = a + int n * 1831565813" by simp
  moreover have "\<bar>a + int n * 1831565813 + 1831565813\<bar> \<le> 2 ^ 53"
    using Suc.prems by simp
  ultimately show ?case
    by (simp add: skip_Suc mulberry32_call_state to_double_small algebra_simps)
qed

text \<open>
  Claim C5, as stated, fails: \<open>makePalette\<close> draws four values, not five. On a fresh
  generator seeded with 0 it leaves the generator where four draws leave it, which is not
  where five draws leave it.
\<close>

theorem makePalette_five_draws_counterexample:
  "rng_a (snd (run_state makePalette (blank 400 400))) = skip 4 0
   \<and> skip 4 0 = 7326263252 \<and> skip 5 0 = 9157829065
   \<and> rng_a (snd (run_state makePalette (blank 400 400))) \<noteq> skip 5 0"
proof -
  have "skip 4 0 = 7326263252" and "skip 5 0 = 9157829065"
    using skip_small [of 0 4] skip_small [of 0 5] by simp_all
  then show ?thesis
    by (simp add: run_makePalette blank_def)
qed

text \<open>
  Claim C5, amended. The palette is created once per render from the generator's first
  four draws: \<open>makePalette\<close> consumes exactly four values (the palette it returns is a
  function of the next four draws, the generator is left four draws further, and nothing
  else of the state changes), and all of the render after it runs with that one palette,
  the palette of the first four draws of the seed.
\<close>

theorem makePalette_four_draws:
  "run_state makePalette s =
     (palette_of (draw_at 0 (rng_a s)) (draw_at 1 (rng_a s)) (draw_at 2 (rng_a s))
        (draw_at 3 (rng_a s)),
      s\<lparr>rng_a := skip 4 (rng_a s)\<rparr>)
   \<and> run_state (render w h word seed options) s =
     run_state (paint w h word options
         (palette_of (draw_at 0 seed) (draw_at 1 seed) (draw_at 2 seed) (draw_at 3 seed)))
       (s\<lparr>rng_a := skip 4 seed\<rparr>)"
  by (simp add: render_def run_new_rng run_makePalette)

theorem makePalette_four_draws_witness:
  "run_state makePalette (blank 400 400) =
     (palette_of (draw_at 0 0) (draw_at 1 0) (draw_at 2 0) (draw_at 3 0),
      (blank 400 400)\<lparr>rng_a := 7326263252\<rparr>)"
proof -
  have "skip 4 0 = 7326263252"
    using skip_small [of 0 4] by simp
  with makePalette_four_draws [of "blank 400 400"] show ?thesis
    by (simp add: blank_def)
qed

section \<open>The ranges of the structural choices\<close>

text \<open>
  Claim C6. For every seed, word, option and canvas, a render records exactly this: its
  \<open>segments\<close>, its \<open>layers\<close>, one kind for each layer \<open>0, 1, ...\<close> (one of the five
  motifs), and its \<open>centerPetals\<close>; \<open>segments\<close> is \<open>clamp(floor(8 + d * 18), 8, 26)\<close> for
  the draw \<open>d\<close> number 7205 of the seed and lies in \<open>[8, 26]\<close>, \<open>layers\<close> is
  \<open>clamp(floor(7 + d * 7), 7, 14)\<close> for draw number 7206 and lies in \<open>[7, 14]\<close>, and
  \<open>centerPetals\<close> is \<open>clamp(floor(10 + d * 18), 10, 30)\<close> for a draw \<open>d\<close> and lies in
  \<open>[10, 30]\<close>.
\<close>

theorem choices_in_range:
  "\<exists>n m p ks. new_choices (drawMandala word seed options) s =
       Segments n # Layers m # ks @ [CenterPetals p]
     \<and> length ks = nat m \<and> kinds_from 0 ks
     \<and> n = clamp \<lfloor>8 + draw_at 7205 seed * 18\<rfloor> 8 26
     \<and> m = clamp \<lfloor>7 + draw_at 7206 seed * 7\<rfloor> 7 14
     \<and> (\<exists>d :: real. 0 \<le> d \<and> d < 1 \<and> p = clamp \<lfloor>10 + d * 18\<rfloor> 10 30)
     \<and> 8 \<le> n \<and> n \<le> 26 \<and> 7 \<le> m \<and> m \<le> 14 \<and> 10 \<le> p \<and> p \<le> 30"
proof -
  from drawMandala_choices [of word seed options s] obtain d :: real and ks where
    c: "new_choices (drawMandala word seed options) s =
       Segments (clamp \<lfloor>8 + draw_at 7205 seed * 18\<rfloor> 8 26)
       # Layers (clamp \<lfloor>7 + draw_at 7206 seed * 7\<rfloor> 7 14)
       # ks @ [CenterPetals (clamp \<lfloor>10 + d * 18\<rfloor> 10 30)]"
    and k: "length ks = nat (clamp \<lfloor>7 + draw_at 7206 seed * 7\<rfloor> 7 14)" "kinds_from 0 ks"
    and d: "0 \<le> d" "d < 1"
    by blast
  have "8 \<le> clamp \<lfloor>8 + draw_at 7205 seed * 18\<rfloor> 8 26
      \<and> clamp \<lfloor>8 + draw_at 7205 seed * 18\<rfloor> 8 26 \<le> 26"
    by (rule clamp_bounds) simp
  moreover have "7 \<le> clamp \<lfloor>7 + draw_at 7206 seed * 7\<rfloor> 7 14
      \<and> clamp \<lfloor>7 + draw_at 7206 seed * 7\<rfloor> 7 14 \<le> 14"
    by (rule clamp_bounds) simp
  moreover have "10 \<le> clamp \<lfloor>10 + d * 18\<rfloor> 10 30 \<and> clamp \<lfloor>10 + d * 18\<rfloor> 10 30 \<le> 30"
    by (rule clamp_bounds) simp
  ultimately show ?thesis
    using c k d by blast
qed

theorem choices_in_range_witness:
  "\<exists>n m p ks.
     new_choices (drawMandala (js ''lotus'') (computeSeed (\<lambda>s. s) (js ''lotus'')) (Some True))
       (blank 400 400) = Segments n # Layers m # ks @ [CenterPetals p]
     \<and> length ks = nat m \<and> kinds_from 0 ks
     \<and> 8 \<le> n \<and> n \<le> 26 \<and> 7 \<le> m \<and> m \<le> 14 \<and> 10 \<le> p \<and> p \<le> 30"
  using choices_in_range [of "js ''lotus''" "computeSeed (\<lambda>s. s) (js ''lotus'')" "Some True"
      "blank 400 400"]
  by blast

text \<open>
  Claim C9. The upper bounds of the three clamps are never attained: every draw is below
  1, so for every seed \<open>segments\<close> is at most 25, \<open>layers\<close> at most 13 and \<open>centerPetals\<close>
  at most 27.
\<close>

theorem clamp_upper_bounds_not_attained:
  "\<exists>n m p ks. new_choices (drawMandala word seed options) s =
       Segments n # Layers m # ks @ [CenterPetals p]
     \<and> n = clamp \<lfloor>8 + draw_at 7205 seed * 18\<rfloor> 8 26
     \<and> m = clamp \<lfloor>7 + draw_at 7206 seed * 7\<rfloor> 7 14
     \<and> (\<exists>d :: real. 0 \<le> d \<and> d < 1 \<and> p = clamp \<lfloor>10 + d * 18\<rfloor> 10 30)
     \<and> n \<le> 25 \<and> m \<le> 13 \<and> p \<le> 27"
proof -
  from drawMandala_choices [of word seed options s] obtain d :: real and ks where
    c: "new_choices (drawMandala word seed options) s =
       Segments (clamp \<lfloor>8 + draw_at 7205 seed * 18\<rfloor> 8 26)
       # Layers (clamp \<lfloor>7 + draw_at 7206 seed * 7\<rfloor> 7 14)
       # ks @ [CenterPetals (clamp \<lfloor>10 + d * 18\<rfloor> 10 30)]"
    and d: "0 \<le> d" "d < 1"
    by blast
  have "clamp \<lfloor>8 + draw_at 7205 seed * 18\<rfloor> 8 26 \<le> 25"
    using segments_range [of "draw_at 7205 seed"] draw_at_range [of 7205 seed] by simp
  moreover have "clamp \<lfloor>7 + draw_at 7206 seed * 7\<rfloor> 7 14 \<le> 13"
    using layers_range [of "draw_at 7206 seed"] draw_at_range [of 7206 seed] by simp
  moreover have "clamp \<lfloor>10 + d * 18\<rfloor> 10 30 \<le> 27"
    using centerPetals_range [OF d] by simp
  ultimately show ?thesis
    using c d by blast
qed

theorem clamp_upper_bounds_not_attained_witness:
  "\<exists>n m p ks.
     new_choices (drawMandala (js ''lotus'') (computeSeed (\<lambda>s. s) (js ''lotus'')) (Some True))
       (blank 400 400) = Segments n # Layers m # ks @ [CenterPetals p]
     \<and> n \<le> 25 \<and> m \<le> 13 \<and> p \<le> 27"
  using clamp_upper_bounds_not_attained [of "js ''lotus''"
      "computeSeed (\<lambda>s. s) (js ''lotus'')" "Some True" "blank 400 400"]
  by blast

end
